theory Spec2Isabelle
  imports Main
begin

section \<open>Data model\<close>

text \<open>
  A \<open>time.Time\<close> is an instant: nanoseconds since the Unix epoch. \<open>time.Unix(0, 0)\<close> is
  the instant 0 and \<open>t.After(u)\<close> is the strict order on instants.
\<close>

type_synonym time = int

definition Unix :: "int \<Rightarrow> int \<Rightarrow> time" where
  "Unix sec nsec = sec * 1000000000 + nsec"

definition After :: "time \<Rightarrow> time \<Rightarrow> bool" where
  "After t u = (u < t)"

text \<open>
  \<open>t.UnixNano()\<close> is an \<open>int64\<close>: the nanoseconds since the epoch, wrapped around into
  the 64-bit range for a time before the year 1678 or after the year 2262.
\<close>

definition UnixNano :: "time \<Rightarrow> int" where
  "UnixNano t = (t + 2 ^ 63) mod 2 ^ 64 - 2 ^ 63"

text \<open>The zero value of \<open>time.Time\<close>, for which \<open>t.IsZero()\<close> holds: January 1 of the year 1.\<close>

definition zero_Time :: time where
  "zero_Time = Unix (- 62135596800) 0"

text \<open>
  Go errors. \<open>NotNewer\<close> is the package variable of \<open>fetch\<close> (\<open>main.go\<close> names it
  \<open>fetch.ErrNotNewer\<close>); callers compare against it by identity, so it is a constructor of
  its own and differs from every \<open>Errorf\<close> value, also from one with the same text.
  \<open>NotExist\<close> is the error of the operating system for a missing file, the one
  \<open>os.IsNotExist\<close> recognises. \<open>Foreign\<close> is an error made by a library the repository
  calls (the HTTP transport, \<open>http.ParseTime\<close>, \<open>changelog\<close>, the feed writer, the
  operating system); only its message is kept.
\<close>

datatype error = NotNewer | Errorf string | NotExist string | Foreign string

fun Error :: "error \<Rightarrow> string" where
  "Error NotNewer = ''Remote file is not newer than provided time''"
| "Error (Errorf s) = s"
| "Error (NotExist name) = ''stat '' @ name @ '': no such file or directory''"
| "Error (Foreign s) = s"

fun os_IsNotExist :: "error option \<Rightarrow> bool" where
  "os_IsNotExist (Some (NotExist name)) = True"
| "os_IsNotExist e = False"

text \<open>
  Modelled from the spec: the type \<open>changelog.Entry\<close> is not among the sources. An entry
  has the declared date, the free-form text and the ordered change lines, each a changed
  path and an action.
\<close>

record Update =
  Name :: string
  Action :: string

record Entry =
  Date :: time
  Changes :: string
  Updates :: "Update list"

text \<open>The feed value of the feeds library: a title, a link and the items.\<close>

record Item =
  ItemTitle :: string
  ItemLink :: string
  Description :: string
  Created :: time

record Feed =
  Title :: string
  Link :: string
  Items :: "Item list"

text \<open>
  An \<open>io.Reader\<close>: the bytes it delivers and, when reading breaks before the end of the
  stream, the message of the read error.
\<close>

record Reader =
  bytes :: string
  broken :: "string option"

text \<open>
  An HTTP response: the status code, the header (keys in canonical form, the first value
  of each), the URL of the request that produced it, and the body.
\<close>

record Response =
  StatusCode :: int
  Header :: "string \<rightharpoonup> string"
  RequestURL :: string
  Body :: Reader

definition StatusOK :: int where
  "StatusOK = 200"

text \<open>
  \<open>Header.Get\<close> looks the canonical form of the key up and returns the empty string for
  a key that is absent; the one key the program asks for is \<open>last-modified\<close>, whose
  canonical form is \<open>Last-Modified\<close>.
\<close>

definition Header_Get :: "(string \<rightharpoonup> string) \<Rightarrow> string \<Rightarrow> string" where
  "Header_Get h key =
     (case h (if key = ''last-modified'' then ''Last-Modified'' else key) of
        None \<Rightarrow> [] | Some v \<Rightarrow> v)"

text \<open>
  \<open>Repo\<close>: the package \<open>fetch\<close> declares the field \<open>URL\<close>, the only one its functions
  read; the composite literal of \<open>main.go\<close> (line 128) also sets \<open>Release\<close>. \<open>Mirror\<close> is the
  struct of \<open>main.go\<close>; its field \<open>URL\<close> is \<open>MirrorURL\<close> here, as two records cannot share
  a field name.
\<close>

record Repo =
  URL :: string
  Release :: string

record Mirror =
  MirrorURL :: string
  Releases :: "string list"
  Prefix :: string

section \<open>The world the program runs in\<close>

text \<open>
  The file system maps a path to the content and the modification time of the file
  there. Every call that leaves the process (an HTTP request, a system call, a log line)
  is recorded in \<open>trace\<close> and advances \<open>tick\<close>, so the environment may answer every
  call differently.
\<close>

record File =
  content :: string
  modtime :: time

datatype event =
    EvHead string
  | EvGet string
  | EvStat string
  | EvCreate string
  | EvWrite string string
  | EvClose string
  | EvChtimes string time time
  | EvLogProcessing string
  | EvLogError string error

record World =
  tick :: nat
  files :: "string \<rightharpoonup> File"
  trace :: "event list"

text \<open>
  What the program does not decide: the answers of the network, the faults of the
  operating system, the wall clock, and the library functions that are not part of the
  source at hand. The first argument of an answer that can change is the tick of the call.
  \<open>feed_WriteRss\<close> gives the bytes that reached the file and the error, if any.
  \<open>chtimes_omits_zero\<close> says whether the Go release at hand is one (1.21 or later) whose
  \<open>os.Chtimes\<close> leaves a time of the file unchanged when it is given the zero \<open>time.Time\<close>.
\<close>

record Env =
  http_Head :: "nat \<Rightarrow> string \<Rightarrow> string + Response"
  http_Get :: "nat \<Rightarrow> string \<Rightarrow> string + Response"
  time_Parse :: "string \<Rightarrow> time option"
  changelog_Parse :: "Reader \<Rightarrow> string + Entry list"
  changelog_ToFeed :: "string \<Rightarrow> Entry list \<Rightarrow> string + Feed"
  feed_WriteRss :: "nat \<Rightarrow> Feed \<Rightarrow> string \<times> string option"
  filepath_Join :: "string \<Rightarrow> string \<Rightarrow> string"
  stat_fault :: "nat \<Rightarrow> string \<Rightarrow> string option"
  create_fault :: "nat \<Rightarrow> string \<Rightarrow> string option"
  chtimes_fault :: "nat \<Rightarrow> string \<Rightarrow> string option"
  chtimes_omits_zero :: bool
  wall_clock :: "nat \<Rightarrow> time"

definition emit :: "event \<Rightarrow> World \<Rightarrow> World" where
  "emit ev w = w\<lparr>tick := Suc (tick w), trace := trace w @ [ev]\<rparr>"

section \<open>Package fetch\<close>

text \<open>The verb \<open>%d\<close> of \<open>fmt.Errorf\<close> on an \<open>int\<close>.\<close>

fun decimal :: "nat \<Rightarrow> string" where
  "decimal n =
     (if n < 10 then [''0123456789'' ! n]
      else decimal (n div 10) @ [''0123456789'' ! (n mod 10)])"

declare decimal.simps [simp del]

definition Sprint_d :: "int \<Rightarrow> string" where
  "Sprint_d i = (if i < 0 then CHR ''-'' # decimal (nat (- i)) else decimal (nat i))"

text \<open>
  \<open>http.ParseTime\<close> of the standard library: none of its three layouts matches the empty
  string, which is what \<open>Header.Get\<close> returns for an absent header; on any other text the
  environment decides.
\<close>

definition http_ParseTime :: "Env \<Rightarrow> string \<Rightarrow> error + time" where
  "http_ParseTime env s =
     (if s = [] then Inl (Foreign ''parsing time: cannot parse'')
      else case time_Parse env s of
             None \<Rightarrow> Inl (Foreign ''parsing time: cannot parse'')
           | Some t \<Rightarrow> Inr t)"

text \<open>\<open>Repo.head\<close> and \<open>Repo.get\<close> (lines 16 to 21 of the package): the URL is \<open>r.URL\<close>, a
  slash and the file name.\<close>

definition head :: "Env \<Rightarrow> Repo \<Rightarrow> string \<Rightarrow> World \<Rightarrow> (error + Response) \<times> World" where
  "head env r file w =
     (let url = URL r @ ''/'' @ file
      in (case http_Head env (tick w) url of
            Inl m \<Rightarrow> Inl (Foreign m)
          | Inr resp \<Rightarrow> Inr resp,
          emit (EvHead url) w))"

definition get :: "Env \<Rightarrow> Repo \<Rightarrow> string \<Rightarrow> World \<Rightarrow> (error + Response) \<times> World" where
  "get env r file w =
     (let url = URL r @ ''/'' @ file
      in (case http_Get env (tick w) url of
            Inl m \<Rightarrow> Inl (Foreign m)
          | Inr resp \<Rightarrow> Inr resp,
          emit (EvGet url) w))"

text \<open>
  \<open>Repo.ChangeLog\<close> (lines 50 to 70) and \<open>Repo.NewerChangeLog\<close> (lines 23 to 43). The three
  results of the Go functions are a triple: the entries (\<open>nil\<close> is the empty list), the
  modification time and the error (\<open>nil\<close> is \<open>None\<close>).
\<close>

type_synonym fetched = "Entry list \<times> time \<times> error option"

definition fetched_entries :: "fetched \<times> World \<Rightarrow> Entry list" where
  "fetched_entries x = fst (fst x)"

definition fetched_mtime :: "fetched \<times> World \<Rightarrow> time" where
  "fetched_mtime x = fst (snd (fst x))"

definition fetched_err :: "fetched \<times> World \<Rightarrow> error option" where
  "fetched_err x = snd (snd (fst x))"

definition ChangeLog :: "Env \<Rightarrow> Repo \<Rightarrow> World \<Rightarrow> fetched \<times> World" where
  "ChangeLog env r w =
     (case get env r ''ChangeLog.txt'' w of
        (Inl err, w1) \<Rightarrow> (([], Unix 0 0, Some err), w1)
      | (Inr resp, w1) \<Rightarrow>
          if StatusCode resp \<noteq> StatusOK
          then (([], Unix 0 0,
                 Some (Errorf (Sprint_d (StatusCode resp) @ '' status from '' @ RequestURL resp))), w1)
          else (case http_ParseTime env (Header_Get (Header resp) ''last-modified'') of
                  Inl err \<Rightarrow> (([], Unix 0 0, Some err), w1)
                | Inr mtime \<Rightarrow>
                    (case changelog_Parse env (Body resp) of
                       Inl m \<Rightarrow> (([], mtime, Some (Foreign m)), w1)
                     | Inr e \<Rightarrow> ((e, mtime, None), w1))))"

definition NewerChangeLog :: "Env \<Rightarrow> Repo \<Rightarrow> time \<Rightarrow> World \<Rightarrow> fetched \<times> World" where
  "NewerChangeLog env r than w =
     (case head env r ''ChangeLog.txt'' w of
        (Inl err, w1) \<Rightarrow> (([], Unix 0 0, Some err), w1)
      | (Inr resp, w1) \<Rightarrow>
          if StatusCode resp \<noteq> StatusOK
          then (([], Unix 0 0,
                 Some (Errorf (Sprint_d (StatusCode resp) @ '' status from '' @ RequestURL resp))), w1)
          else (case http_ParseTime env (Header_Get (Header resp) ''last-modified'') of
                  Inl err \<Rightarrow> (([], Unix 0 0, Some err), w1)
                | Inr mtime \<Rightarrow>
                    if After mtime than then ChangeLog env r w1
                    else (([], Unix 0 0, Some NotNewer), w1)))"

section \<open>The operating system\<close>

record FileInfo =
  ModTime :: time

definition os_Stat :: "Env \<Rightarrow> string \<Rightarrow> World \<Rightarrow> (error + FileInfo) \<times> World" where
  "os_Stat env name w =
     (case stat_fault env (tick w) name of
        Some m \<Rightarrow> Inl (Foreign m)
      | None \<Rightarrow>
          (case files w name of
             None \<Rightarrow> Inl (NotExist name)
           | Some f \<Rightarrow> Inr \<lparr>ModTime = modtime f\<rparr>),
      emit (EvStat name) w)"

definition put_file :: "string \<Rightarrow> File \<Rightarrow> World \<Rightarrow> World" where
  "put_file name f w = w\<lparr>files := (files w)(name \<mapsto> f)\<rparr>"

text \<open>
  \<open>os.Create\<close> opens the file for writing, creating it when absent and truncating it
  when present; the file is then empty and carries the wall-clock time. The handle is the
  path.
\<close>

definition os_Create :: "Env \<Rightarrow> string \<Rightarrow> World \<Rightarrow> (error + string) \<times> World" where
  "os_Create env name w =
     (case create_fault env (tick w) name of
        Some m \<Rightarrow> (Inl (Foreign m), emit (EvCreate name) w)
      | None \<Rightarrow>
          (Inr name,
           emit (EvCreate name)
             (put_file name \<lparr>content = [], modtime = wall_clock env (tick w)\<rparr> w)))"

text \<open>
  \<open>feeds.WriteRss(fh)\<close>: the bytes the environment lets through are appended to the file,
  which then carries the wall-clock time; the error, if any, is returned.
\<close>

definition append_file :: "string \<Rightarrow> string \<Rightarrow> time \<Rightarrow> World \<Rightarrow> World" where
  "append_file fh out now w =
     (case files w fh of
        None \<Rightarrow> w
      | Some f \<Rightarrow>
          if out = [] then w
          else put_file fh \<lparr>content = content f @ out, modtime = now\<rparr> w)"

definition WriteRss :: "Env \<Rightarrow> Feed \<Rightarrow> string \<Rightarrow> World \<Rightarrow> error option \<times> World" where
  "WriteRss env feed fh w =
     (case feed_WriteRss env (tick w) feed of
        (out, err) \<Rightarrow>
          (map_option Foreign err,
           emit (EvWrite fh out) (append_file fh out (wall_clock env (tick w)) w)))"

definition os_Close :: "string \<Rightarrow> World \<Rightarrow> World" where
  "os_Close fh w = emit (EvClose fh) w"

text \<open>
  \<open>os.Chtimes\<close> hands \<open>atime.UnixNano()\<close> and \<open>mtime.UnixNano()\<close> to the system call, so the
  file carries the modification time as that 64-bit count of nanoseconds; the later Go
  releases leave the time of the file as it is when given the zero \<open>time.Time\<close>.
\<close>

definition stamped :: "Env \<Rightarrow> time \<Rightarrow> time \<Rightarrow> time" where
  "stamped env old mtime =
     (if chtimes_omits_zero env \<and> mtime = zero_Time then old else UnixNano mtime)"

definition os_Chtimes :: "Env \<Rightarrow> string \<Rightarrow> time \<Rightarrow> time \<Rightarrow> World \<Rightarrow> error option \<times> World" where
  "os_Chtimes env name atime mtime w =
     (case chtimes_fault env (tick w) name of
        Some m \<Rightarrow> (Some (Foreign m), emit (EvChtimes name atime mtime) w)
      | None \<Rightarrow>
          (case files w name of
             None \<Rightarrow> (Some (NotExist name), emit (EvChtimes name atime mtime) w)
           | Some f \<Rightarrow>
               (None, emit (EvChtimes name atime mtime) (put_file name (f\<lparr>modtime := stamped env (modtime f) mtime\<rparr>) w))))"

definition log_Println :: "string \<Rightarrow> error \<Rightarrow> World \<Rightarrow> World" where
  "log_Println release err w = emit (EvLogError release err) w"

section \<open>The main loop of sl-feeds\<close>

text \<open>
  The second half of the loop body (\<open>main.go\<close>, lines 163 to 185): render the feed, write
  it out and set the times of the file. Every \<open>continue\<close> of the source ends the body with
  the world as it is then.
\<close>

definition persist ::
  "Env \<Rightarrow> string \<Rightarrow> Mirror \<Rightarrow> string \<Rightarrow> Repo \<Rightarrow> Entry list \<Rightarrow> time \<Rightarrow> World \<Rightarrow> World" where
  "persist env dest mirror release repo entries mtime w =
     (case changelog_ToFeed env (URL repo @ ''/'' @ release) entries of
        Inl m \<Rightarrow> log_Println release (Foreign m) w
      | Inr feeds0 \<Rightarrow>
          (let feeds = feeds0\<lparr>Title := ''ChangeLog.txt for '' @ Prefix mirror @ release\<rparr>
           in case os_Create env (filepath_Join env dest (Prefix mirror @ release @ ''.rss'')) w of
                (Inl err, w1) \<Rightarrow> log_Println release err w1
              | (Inr fh, w1) \<Rightarrow>
                  (case WriteRss env feeds fh w1 of
                     (Some err, w2) \<Rightarrow> os_Close fh (log_Println release err w2)
                   | (None, w2) \<Rightarrow>
                       (case os_Chtimes env
                               (filepath_Join env dest (Prefix mirror @ release @ ''.rss''))
                               mtime mtime (os_Close fh w2) of
                          (Some err, w4) \<Rightarrow> log_Println release err w4
                        | (None, w4) \<Rightarrow> w4))))"

text \<open>
  The first half of the loop body (\<open>main.go\<close>, lines 128 to 161): stat the destination,
  then fetch without a condition when there is no file and with the time of the file
  otherwise. \<open>None\<close> is a \<open>continue\<close>; \<open>quiet\<close> is the command-line flag.
\<close>

definition fetch_step ::
  "Env \<Rightarrow> bool \<Rightarrow> string \<Rightarrow> Mirror \<Rightarrow> string \<Rightarrow> World \<Rightarrow> (Entry list \<times> time) option \<times> World" where
  "fetch_step env quiet dest mirror release w =
     (let repo = \<lparr>URL = MirrorURL mirror, Release = release\<rparr>;
          w0 = (if \<not> quiet then emit (EvLogProcessing (URL repo @ ''/'' @ Release repo)) w else w)
      in case os_Stat env (filepath_Join env dest (Prefix mirror @ release @ ''.rss'')) w0 of
           (Inl err, w1) \<Rightarrow>
             if \<not> os_IsNotExist (Some err) then (None, log_Println release err w1)
             else (case ChangeLog env repo w1 of
                     ((entries, mtime, Some err), w2) \<Rightarrow> (None, log_Println release err w2)
                   | ((entries, mtime, None), w2) \<Rightarrow> (Some (entries, mtime), w2))
         | (Inr stat, w1) \<Rightarrow>
             (case NewerChangeLog env repo (ModTime stat) w1 of
                ((entries, mtime, Some err), w2) \<Rightarrow>
                  (None, if \<not> (err = NotNewer \<and> quiet) then log_Println release err w2 else w2)
              | ((entries, mtime, None), w2) \<Rightarrow> (Some (entries, mtime), w2)))"

text \<open>The loop body for one release of one mirror, and the two loops (lines 126 and 127).\<close>

definition process_release ::
  "Env \<Rightarrow> bool \<Rightarrow> string \<Rightarrow> Mirror \<Rightarrow> string \<Rightarrow> World \<Rightarrow> World" where
  "process_release env quiet dest mirror release w =
     (case fetch_step env quiet dest mirror release w of
        (None, w2) \<Rightarrow> w2
      | (Some (entries, mtime), w2) \<Rightarrow>
          persist env dest mirror release \<lparr>URL = MirrorURL mirror, Release = release\<rparr>
            entries mtime w2)"

fun releases_loop ::
  "Env \<Rightarrow> bool \<Rightarrow> string \<Rightarrow> Mirror \<Rightarrow> string list \<Rightarrow> World \<Rightarrow> World" where
  "releases_loop env quiet dest mirror [] w = w"
| "releases_loop env quiet dest mirror (release # rest) w =
     releases_loop env quiet dest mirror rest (process_release env quiet dest mirror release w)"

fun mirrors_loop :: "Env \<Rightarrow> bool \<Rightarrow> string \<Rightarrow> Mirror list \<Rightarrow> World \<Rightarrow> World" where
  "mirrors_loop env quiet dest [] w = w"
| "mirrors_loop env quiet dest (mirror # rest) w =
     mirrors_loop env quiet dest rest (releases_loop env quiet dest mirror (Releases mirror) w)"

section \<open>Package fetch with a release, from the specification\<close>








section \<open>Reading a trace\<close>

text \<open>
  The paths that were stat-ed, the error lines that were logged and the calls of
  \<open>os.Chtimes\<close> (path and modification time), each in the order of the trace.
\<close>

fun stats :: "event list \<Rightarrow> string list" where
  "stats [] = []"
| "stats (EvStat p # evs) = p # stats evs"
| "stats (ev # evs) = stats evs"

fun logged_errors :: "event list \<Rightarrow> (string \<times> error) list" where
  "logged_errors [] = []"
| "logged_errors (EvLogError release err # evs) = (release, err) # logged_errors evs"
| "logged_errors (ev # evs) = logged_errors evs"

fun stamps :: "event list \<Rightarrow> (string \<times> time) list" where
  "stamps [] = []"
| "stamps (EvChtimes p atime mtime # evs) = (p, mtime) # stamps evs"
| "stamps (ev # evs) = stamps evs"



text \<open>The pairs of a mirror and one of its releases, in the order of the two loops.\<close>

definition release_pairs :: "Mirror list \<Rightarrow> (Mirror \<times> string) list" where
  "release_pairs mirrors = concat (map (\<lambda>m. map (Pair m) (Releases m)) mirrors)"

text \<open>
  What the events of one run of the loop body look like, for the destination \<open>p\<close> and the
  requested URL \<open>u\<close>: one stat of the destination, and then either one logged error that
  names the release, or no logged error in quiet mode after the metadata request alone, or
  no logged error and, at the end, the file created, written, closed and its times set.
\<close>

definition release_segment :: "string \<Rightarrow> string \<Rightarrow> string \<Rightarrow> bool \<Rightarrow> event list \<Rightarrow> bool" where
  "release_segment p u release quiet evs =
     (stats evs = [p]
      \<and> ((\<exists>e. logged_errors evs = [(release, e)])
         \<or> (logged_errors evs = [] \<and> quiet \<and> evs = [EvStat p, EvHead u])
         \<or> (logged_errors evs = []
            \<and> (\<exists>pre out t. evs = pre @ [EvCreate p, EvWrite p out, EvClose p, EvChtimes p t t]))))"

section \<open>Package changelog, from the specification\<close>

text \<open>
  Modelled from the spec: the package \<open>changelog\<close> (its \<open>Parse\<close>) is not among the sources.
  The specification gives the parsing model: the document is a sequence of lines; a line
  that matches the date-header pattern opens a block; the lines up to the next header or the
  end of the stream belong to that block; a blank line is ignored, a package-change line
  adds a change, any other line is commentary. What a date header and a change line look
  like is left open there, so both recognisers are parameters, as is the test for a header
  cut short by the end of the stream.
\<close>

text \<open>Modelled from the spec: the lines of the stream, split at newlines.\<close>

fun lines_from :: "string \<Rightarrow> string \<Rightarrow> string list" where
  "lines_from cur [] = (if cur = [] then [] else [cur])"
| "lines_from cur (c # cs) =
     (if c = CHR 0x0A then cur # lines_from [] cs else lines_from (cur @ [c]) cs)"

definition lines_of :: "string \<Rightarrow> string list" where
  "lines_of s = lines_from [] s"

text \<open>Modelled from the spec: a blank line holds white space only.\<close>

definition blank :: "string \<Rightarrow> bool" where
  "blank l = list_all (\<lambda>c. c = CHR '' '' \<or> c = CHR 0x09 \<or> c = CHR 0x0D) l"

text \<open>
  Modelled from the spec: the two states of the parser, outside any block and inside the
  block whose entry is being built.
\<close>

datatype parser_state = Outside | Inside Entry

text \<open>Modelled from the spec: one line of a block added to its entry.\<close>

definition add_line :: "(string \<Rightarrow> Update option) \<Rightarrow> Entry \<Rightarrow> string \<Rightarrow> Entry" where
  "add_line change e l =
     (if blank l then e
      else case change l of
             Some u \<Rightarrow> e\<lparr>Updates := Updates e @ [u]\<rparr>
           | None \<Rightarrow> e\<lparr>Changes := Changes e @ l @ [CHR 0x0A]\<rparr>)"

text \<open>Modelled from the spec: the block in progress, if any, becomes an entry.\<close>

fun flush :: "parser_state \<Rightarrow> Entry list" where
  "flush Outside = []"
| "flush (Inside e) = [e]"

text \<open>
  Modelled from the spec: the scan of the lines. A header closes the block in progress and
  opens the next; the end of the stream closes the last block; lines before the first
  header belong to no block.
\<close>

fun parse_lines ::
  "(string \<Rightarrow> time option) \<Rightarrow> (string \<Rightarrow> Update option) \<Rightarrow> parser_state \<Rightarrow> string list \<Rightarrow> Entry list" where
  "parse_lines header change st [] = flush st"
| "parse_lines header change st (l # ls) =
     (case header l of
        Some t \<Rightarrow>
          flush st @ parse_lines header change (Inside \<lparr>Date = t, Changes = [], Updates = []\<rparr>) ls
      | None \<Rightarrow>
          (case st of
             Outside \<Rightarrow> parse_lines header change Outside ls
           | Inside e \<Rightarrow> parse_lines header change (Inside (add_line change e l)) ls))"

text \<open>
  Modelled from the spec: \<open>changelog.Parse\<close>. A read error, or a stream that ends in the
  middle of a header, is a parse error and no entry is returned.
\<close>

definition Parse ::
  "(string \<Rightarrow> time option) \<Rightarrow> (string \<Rightarrow> Update option) \<Rightarrow> (string \<Rightarrow> bool) \<Rightarrow> Reader
     \<Rightarrow> error + Entry list" where
  "Parse header change cut_short rd =
     (case broken rd of
        Some m \<Rightarrow> Inl (Foreign m)
      | None \<Rightarrow>
          (let ls = lines_of (bytes rd)
           in if ls \<noteq> [] \<and> cut_short (last ls) then Inl (Errorf ''unexpected end of header'')
              else Inr (parse_lines header change Outside ls)))"

text \<open>
  Modelled from the spec: the entry of one block, from its declared date and its lines, and
  the lines of a document made of blocks (header line, date, lines of the body).
\<close>

definition block_entry :: "(string \<Rightarrow> Update option) \<Rightarrow> time \<Rightarrow> string list \<Rightarrow> Entry" where
  "block_entry change t body = foldl (add_line change) \<lparr>Date = t, Changes = [], Updates = []\<rparr> body"

definition block_lines :: "(string \<times> time \<times> string list) list \<Rightarrow> string list" where
  "block_lines blocks = concat (map (\<lambda>(h, t, body). h # body) blocks)"

section \<open>Concrete inputs\<close>

text \<open>
  A mirror that answers every request with status 200 and a change log last modified at
  second 200, over a file system without faults; the theorems below are run on it.
\<close>

definition demo_entry :: Entry where
  "demo_entry = \<lparr>Date = Unix 150 0, Changes = ''Rebuilt.'',
                  Updates = [\<lparr>Name = ''a/bash-5.1.txz'', Action = ''Upgraded.''\<rparr>]\<rparr>"

definition demo_response :: "int \<Rightarrow> (string \<rightharpoonup> string) \<Rightarrow> string \<Rightarrow> Response" where
  "demo_response code hdr url =
     \<lparr>StatusCode = code, Header = hdr, RequestURL = url,
      Body = \<lparr>bytes = ''Thu Jan  1 00:02:30 UTC 1970'', broken = None\<rparr>\<rparr>"

definition demo_stamp :: "string \<rightharpoonup> string" where
  "demo_stamp = [''Last-Modified'' \<mapsto> ''Thu, 01 Jan 1970 00:03:20 GMT'']"

definition demo_env :: Env where
  "demo_env =
     \<lparr>http_Head = (\<lambda>t url. Inr (demo_response 200 demo_stamp url)),
      http_Get = (\<lambda>t url. Inr (demo_response 200 demo_stamp url)),
      time_Parse = (\<lambda>s. if s = ''Thu, 01 Jan 1970 00:03:20 GMT'' then Some (Unix 200 0) else None),
      changelog_Parse = (\<lambda>rd. case broken rd of Some m \<Rightarrow> Inl m | None \<Rightarrow> Inr [demo_entry]),
      changelog_ToFeed =
        (\<lambda>link es. Inr \<lparr>Title = [], Link = link,
                         Items = map (\<lambda>e. \<lparr>ItemTitle = [], ItemLink = link,
                                              Description = Changes e, Created = Date e\<rparr>) es\<rparr>),
      feed_WriteRss = (\<lambda>t f. (''<rss>'' @ Title f @ ''</rss>'', None)),
      filepath_Join = (\<lambda>dir name. dir @ ''/'' @ name),
      stat_fault = (\<lambda>t name. None),
      create_fault = (\<lambda>t name. None),
      chtimes_fault = (\<lambda>t name. None),
      chtimes_omits_zero = True,
      wall_clock = (\<lambda>t. Unix 5000 0)\<rparr>"

definition demo_mirror :: Mirror where
  "demo_mirror = \<lparr>MirrorURL = ''http://mirror.example'',
                   Releases = [''slackware-14.2'', ''slackware-current''],
                   Prefix = ''alpha-''\<rparr>"

definition demo_repo :: Repo where
  "demo_repo = \<lparr>URL = ''http://mirror.example'', Release = ''slackware-14.2''\<rparr>"

definition demo_world :: World where
  "demo_world = \<lparr>tick = 0, files = Map.empty, trace = []\<rparr>"

definition demo_world_fed :: "time \<Rightarrow> World" where
  "demo_world_fed t =
     \<lparr>tick = 0,
      files = [''/feeds/alpha-slackware-14.2.rss'' \<mapsto> \<lparr>content = ''<rss>old</rss>'', modtime = t\<rparr>],
      trace = []\<rparr>"

text \<open>A change log of two blocks, the second not closed by a header.\<close>

definition demo_header :: "string \<Rightarrow> time option" where
  "demo_header l =
     (if l = ''Thu Jan  1 00:00:01 UTC 1970'' then Some (Unix 1 0)
      else if l = ''Thu Jan  1 00:00:02 UTC 1970'' then Some (Unix 2 0)
      else None)"

definition demo_change :: "string \<Rightarrow> Update option" where
  "demo_change l =
     (if l = ''a/bash-5.1.txz:  Upgraded.''
      then Some \<lparr>Name = ''a/bash-5.1.txz'', Action = ''Upgraded.''\<rparr>
      else None)"

definition demo_document :: Reader where
  "demo_document =
     \<lparr>bytes = ''Thu Jan  1 00:00:01 UTC 1970'' @ [CHR 0x0A]
              @ ''Nothing to see.'' @ [CHR 0x0A, CHR 0x0A]
              @ ''Thu Jan  1 00:00:02 UTC 1970'' @ [CHR 0x0A]
              @ ''a/bash-5.1.txz:  Upgraded.'',
      broken = None\<rparr>"

section \<open>Facts about the operations\<close>

lemma head_eq:
  "head env r file w =
     (case http_Head env (tick w) (URL r @ ''/'' @ file) of Inl m \<Rightarrow> Inl (Foreign m) | Inr resp \<Rightarrow> Inr resp,
      emit (EvHead (URL r @ ''/'' @ file)) w)"
  by (simp add: head_def Let_def)

lemma get_eq:
  "get env r file w =
     (case http_Get env (tick w) (URL r @ ''/'' @ file) of Inl m \<Rightarrow> Inl (Foreign m) | Inr resp \<Rightarrow> Inr resp,
      emit (EvGet (URL r @ ''/'' @ file)) w)"
  by (simp add: get_def Let_def)

lemma ChangeLog_never_NotNewer: "fetched_err (ChangeLog env r w) \<noteq> Some NotNewer"
  by (simp add: ChangeLog_def get_eq fetched_err_def http_ParseTime_def
      split: sum.splits option.splits)

lemma stats_append: "stats (xs @ ys) = stats xs @ stats ys"
  by (induction xs rule: stats.induct) simp_all

lemma logged_errors_append: "logged_errors (xs @ ys) = logged_errors xs @ logged_errors ys"
  by (induction xs rule: logged_errors.induct) simp_all

lemma stamps_append: "stamps (xs @ ys) = stamps xs @ stamps ys"
  by (induction xs rule: stamps.induct) simp_all

lemma emit_simps:
  "tick (emit ev w) = Suc (tick w)"
  "files (emit ev w) = files w"
  "trace (emit ev w) = trace w @ [ev]"
  by (simp_all add: emit_def)

lemma os_Stat_eq:
  "os_Stat env p w =
     (case stat_fault env (tick w) p of
        Some m \<Rightarrow> Inl (Foreign m)
      | None \<Rightarrow> (case files w p of None \<Rightarrow> Inl (NotExist p) | Some f \<Rightarrow> Inr \<lparr>ModTime = modtime f\<rparr>),
      emit (EvStat p) w)"
  by (simp add: os_Stat_def)

lemma put_file_simps:
  "tick (put_file p f w) = tick w"
  "trace (put_file p f w) = trace w"
  "files (put_file p f w) = (files w)(p \<mapsto> f)"
  by (simp_all add: put_file_def)

lemma os_Create_fail:
  "create_fault env (tick w) p = Some m \<Longrightarrow> os_Create env p w = (Inl (Foreign m), emit (EvCreate p) w)"
  by (simp add: os_Create_def)

lemma os_Create_ok:
  "create_fault env (tick w) p = None \<Longrightarrow>
   os_Create env p w
     = (Inr p, emit (EvCreate p) (put_file p \<lparr>content = [], modtime = wall_clock env (tick w)\<rparr> w))"
  by (simp add: os_Create_def)

lemma append_file_simps:
  "tick (append_file p out now w) = tick w"
  "trace (append_file p out now w) = trace w"
  "files w p = Some f \<Longrightarrow>
   files (append_file p out now w) p
     = Some (if out = [] then f else \<lparr>content = content f @ out, modtime = now\<rparr>)"
  "q \<noteq> p \<Longrightarrow> files (append_file p out now w) q = files w q"
  by (simp_all add: append_file_def put_file_simps split: option.splits)

lemma WriteRss_eq:
  "feed_WriteRss env (tick w) feed = (out, err) \<Longrightarrow>
   WriteRss env feed p w
     = (map_option Foreign err, emit (EvWrite p out) (append_file p out (wall_clock env (tick w)) w))"
  by (simp add: WriteRss_def)

lemma os_Chtimes_fail:
  "chtimes_fault env (tick w) p = Some m \<Longrightarrow>
   os_Chtimes env p a t w = (Some (Foreign m), emit (EvChtimes p a t) w)"
  by (simp add: os_Chtimes_def)

lemma os_Chtimes_ok:
  "chtimes_fault env (tick w) p = None \<Longrightarrow> files w p = Some f \<Longrightarrow>
   os_Chtimes env p a t w = (None, emit (EvChtimes p a t) (put_file p (f\<lparr>modtime := stamped env (modtime f) t\<rparr>) w))"
  by (simp add: os_Chtimes_def)



lemmas world_simps = emit_simps put_file_simps append_file_simps

lemma persist_tofeed_fail:
  assumes "changelog_ToFeed env (URL repo @ ''/'' @ release) entries = Inl m"
  shows "persist env dest mirror release repo entries mtime w = emit (EvLogError release (Foreign m)) w"
  using assms by (simp add: persist_def log_Println_def)

lemma persist_create_fail:
  assumes "changelog_ToFeed env (URL repo @ ''/'' @ release) entries = Inr feeds0"
      and "p = filepath_Join env dest (Prefix mirror @ release @ ''.rss'')"
      and "create_fault env (tick w) p = Some m"
  shows "persist env dest mirror release repo entries mtime w
           = emit (EvLogError release (Foreign m)) (emit (EvCreate p) w)"
  using assms by (simp add: persist_def os_Create_fail log_Println_def)

lemma persist_write_fail:
  assumes "changelog_ToFeed env (URL repo @ ''/'' @ release) entries = Inr feeds0"
      and "p = filepath_Join env dest (Prefix mirror @ release @ ''.rss'')"
      and "create_fault env (tick w) p = None"
      and "feed_WriteRss env (Suc (tick w))
             (feeds0\<lparr>Title := ''ChangeLog.txt for '' @ Prefix mirror @ release\<rparr>) = (out, Some m)"
      and "w' = persist env dest mirror release repo entries mtime w"
  shows "trace w' = trace w @ [EvCreate p, EvWrite p out, EvLogError release (Foreign m), EvClose p]"
    and "files w' p = Some \<lparr>content = out,
                              modtime = wall_clock env (if out = [] then tick w else Suc (tick w))\<rparr>"
    and "q \<noteq> p \<Longrightarrow> files w' q = files w q"
  using assms
  by (simp_all add: persist_def os_Create_ok WriteRss_eq world_simps os_Close_def log_Println_def)

lemma persist_write_ok:
  assumes "changelog_ToFeed env (URL repo @ ''/'' @ release) entries = Inr feeds0"
      and "p = filepath_Join env dest (Prefix mirror @ release @ ''.rss'')"
      and "create_fault env (tick w) p = None"
      and "feed_WriteRss env (Suc (tick w))
             (feeds0\<lparr>Title := ''ChangeLog.txt for '' @ Prefix mirror @ release\<rparr>) = (out, None)"
      and "w' = persist env dest mirror release repo entries mtime w"
  shows "chtimes_fault env (tick w + 3) p = None \<Longrightarrow>
           trace w' = trace w @ [EvCreate p, EvWrite p out, EvClose p, EvChtimes p mtime mtime]"
    and "chtimes_fault env (tick w + 3) p = None \<Longrightarrow>
           files w' p = Some \<lparr>content = out,
                 modtime = stamped env (wall_clock env (if out = [] then tick w else Suc (tick w)))
                             mtime\<rparr>"
    and "chtimes_fault env (tick w + 3) p = Some m \<Longrightarrow>
           trace w' = trace w @ [EvCreate p, EvWrite p out, EvClose p, EvChtimes p mtime mtime,
                                 EvLogError release (Foreign m)]"
    and "chtimes_fault env (tick w + 3) p = Some m \<Longrightarrow>
           files w' p = Some \<lparr>content = out,
                 modtime = wall_clock env (if out = [] then tick w else Suc (tick w))\<rparr>"
    and "q \<noteq> p \<Longrightarrow> files w' q = files w q"
proof -
  let ?w1 = "emit (EvCreate p) (put_file p \<lparr>content = [], modtime = wall_clock env (tick w)\<rparr> w)"
  let ?w2 = "emit (EvWrite p out) (append_file p out (wall_clock env (tick ?w1)) ?w1)"
  let ?w3 = "os_Close p ?w2"
  let ?f = "if out = [] then \<lparr>content = [], modtime = wall_clock env (tick w)\<rparr>
            else \<lparr>content = out, modtime = wall_clock env (Suc (tick w))\<rparr>"
  have f3: "files ?w3 p = Some ?f"
    by (simp add: world_simps os_Close_def)
  have t3: "tick ?w3 = tick w + 3"
    by (simp add: world_simps os_Close_def)
  have tr3: "trace ?w3 = trace w @ [EvCreate p, EvWrite p out, EvClose p]"
    by (simp add: world_simps os_Close_def)
  have other3: "files ?w3 q = files w q" if "q \<noteq> p" for q
    using that by (simp add: world_simps os_Close_def)
  have w': "w' = (case os_Chtimes env p mtime mtime ?w3 of
                    (Some err, w4) \<Rightarrow> log_Println release err w4 | (None, w4) \<Rightarrow> w4)"
    using assms by (simp add: persist_def os_Create_ok WriteRss_eq world_simps)
  {
    assume ok: "chtimes_fault env (tick w + 3) p = None"
    have "os_Chtimes env p mtime mtime ?w3
            = (None, emit (EvChtimes p mtime mtime) (put_file p (?f\<lparr>modtime := stamped env (modtime ?f) mtime\<rparr>) ?w3))"
      using ok t3 f3 by (intro os_Chtimes_ok) simp_all
    then have eq: "w' = emit (EvChtimes p mtime mtime) (put_file p (?f\<lparr>modtime := stamped env (modtime ?f) mtime\<rparr>) ?w3)"
      using w' by simp
    show "trace w' = trace w @ [EvCreate p, EvWrite p out, EvClose p, EvChtimes p mtime mtime]"
      unfolding eq using tr3 by (simp add: emit_simps put_file_simps)
    show "files w' p = Some \<lparr>content = out,
                 modtime = stamped env (wall_clock env (if out = [] then tick w else Suc (tick w)))
                             mtime\<rparr>"
      unfolding eq by (simp add: emit_simps put_file_simps)
  }
  {
    assume bad: "chtimes_fault env (tick w + 3) p = Some m"
    have "os_Chtimes env p mtime mtime ?w3 = (Some (Foreign m), emit (EvChtimes p mtime mtime) ?w3)"
      using bad t3 by (intro os_Chtimes_fail) simp
    then have eq: "w' = emit (EvLogError release (Foreign m)) (emit (EvChtimes p mtime mtime) ?w3)"
      using w' by (simp add: log_Println_def)
    show "trace w' = trace w @ [EvCreate p, EvWrite p out, EvClose p, EvChtimes p mtime mtime,
                                 EvLogError release (Foreign m)]"
      unfolding eq using tr3 by (simp add: emit_simps)
    show "files w' p = Some \<lparr>content = out,
                 modtime = wall_clock env (if out = [] then tick w else Suc (tick w))\<rparr>"
      unfolding eq using f3 by (simp add: emit_simps)
  }
  {
    assume ne: "q \<noteq> p"
    show "files w' q = files w q"
    proof (cases "chtimes_fault env (tick w + 3) p")
      case None
      have "os_Chtimes env p mtime mtime ?w3
            = (None, emit (EvChtimes p mtime mtime) (put_file p (?f\<lparr>modtime := stamped env (modtime ?f) mtime\<rparr>) ?w3))"
        using None t3 f3 by (intro os_Chtimes_ok) simp_all
      then have "w' = emit (EvChtimes p mtime mtime) (put_file p (?f\<lparr>modtime := stamped env (modtime ?f) mtime\<rparr>) ?w3)"
        using w' by simp
      then show ?thesis using ne other3 [OF ne] by (simp add: emit_simps put_file_simps)
    next
      case (Some m')
      have "os_Chtimes env p mtime mtime ?w3 = (Some (Foreign m'), emit (EvChtimes p mtime mtime) ?w3)"
        using Some t3 by (intro os_Chtimes_fail) simp
      then have "w' = emit (EvLogError release (Foreign m')) (emit (EvChtimes p mtime mtime) ?w3)"
        using w' by (simp add: log_Println_def)
      then show ?thesis using other3 [OF ne] by (simp add: emit_simps)
    qed
  }
qed

lemma ChangeLog_shape:
  "\<exists>es mt err. ChangeLog env r w = ((es, mt, err), emit (EvGet (URL r @ ''/ChangeLog.txt'')) w)
      \<and> err \<noteq> Some NotNewer"
  by (simp add: ChangeLog_def get_eq http_ParseTime_def split: sum.splits option.splits)

lemma NewerChangeLog_shape:
  "\<exists>es mt err w2. NewerChangeLog env r than w = ((es, mt, err), w2)
      \<and> ((w2 = emit (EvHead (URL r @ ''/ChangeLog.txt'')) w \<and> err \<noteq> None)
         \<or> (w2 = emit (EvGet (URL r @ ''/ChangeLog.txt'')) (emit (EvHead (URL r @ ''/ChangeLog.txt'')) w)
            \<and> err \<noteq> Some NotNewer))"
proof -
  let ?w1 = "emit (EvHead (URL r @ ''/ChangeLog.txt'')) w"
  obtain es mt err where c: "ChangeLog env r ?w1 = ((es, mt, err), emit (EvGet (URL r @ ''/ChangeLog.txt'')) ?w1)"
      "err \<noteq> Some NotNewer"
    using ChangeLog_shape [of env r ?w1] by blast
  show ?thesis
    using c by (simp add: NewerChangeLog_def head_eq split: sum.splits)
qed

lemma fetch_step_stat_fault:
  assumes "w0 = (if quiet then w else emit (EvLogProcessing (MirrorURL mirror @ ''/'' @ release)) w)"
      and "p = filepath_Join env dest (Prefix mirror @ release @ ''.rss'')"
      and "stat_fault env (tick w0) p = Some m"
  shows "fetch_step env quiet dest mirror release w
           = (None, emit (EvLogError release (Foreign m)) (emit (EvStat p) w0))"
  using assms by (cases quiet) (simp_all add: fetch_step_def os_Stat_eq log_Println_def Let_def)

lemma fetch_step_absent:
  assumes "w0 = (if quiet then w else emit (EvLogProcessing (MirrorURL mirror @ ''/'' @ release)) w)"
      and "p = filepath_Join env dest (Prefix mirror @ release @ ''.rss'')"
      and "stat_fault env (tick w0) p = None"
      and "files w p = None"
      and "ChangeLog env \<lparr>URL = MirrorURL mirror, Release = release\<rparr> (emit (EvStat p) w0)
             = ((es, mt, err), w2)"
  shows "fetch_step env quiet dest mirror release w
           = (case err of Some e \<Rightarrow> (None, emit (EvLogError release e) w2)
                        | None \<Rightarrow> (Some (es, mt), w2))"
  using assms
  by (cases quiet; cases err) (simp_all add: fetch_step_def os_Stat_eq log_Println_def emit_simps Let_def)

lemma fetch_step_present:
  assumes "w0 = (if quiet then w else emit (EvLogProcessing (MirrorURL mirror @ ''/'' @ release)) w)"
      and "p = filepath_Join env dest (Prefix mirror @ release @ ''.rss'')"
      and "stat_fault env (tick w0) p = None"
      and "files w p = Some f"
      and "NewerChangeLog env \<lparr>URL = MirrorURL mirror, Release = release\<rparr> (modtime f)
             (emit (EvStat p) w0) = ((es, mt, err), w2)"
  shows "fetch_step env quiet dest mirror release w
           = (case err of
                Some e \<Rightarrow> (None, if e = NotNewer \<and> quiet then w2 else emit (EvLogError release e) w2)
              | None \<Rightarrow> (Some (es, mt), w2))"
  using assms
  by (cases quiet; cases err) (simp_all add: fetch_step_def os_Stat_eq log_Println_def emit_simps Let_def)

lemma fetch_step_outcome:
  assumes "p = filepath_Join env dest (Prefix mirror @ release @ ''.rss'')"
      and "u = MirrorURL mirror @ ''/ChangeLog.txt''"
      and "fs = fetch_step env quiet dest mirror release w"
  shows "\<exists>evs. trace (snd fs) = trace w @ evs
           \<and> stats evs = [p] \<and> stamps evs = []
           \<and> files (snd fs) = files w
           \<and> (case fst fs of
                 Some x \<Rightarrow> logged_errors evs = []
               | None \<Rightarrow> (\<exists>e. logged_errors evs = [(release, e)])
                         \<or> (quiet \<and> evs = [EvStat p, EvHead u]))"
proof -
  define w0 where "w0 = (if quiet then w else emit (EvLogProcessing (MirrorURL mirror @ ''/'' @ release)) w)"
  define pre where "pre = (if quiet then [] else [EvLogProcessing (MirrorURL mirror @ ''/'' @ release)])"
  define repo where "repo = \<lparr>URL = MirrorURL mirror, Release = release\<rparr>"
  have w0: "trace w0 = trace w @ pre" "files w0 = files w"
    by (simp_all add: w0_def pre_def emit_simps)
  have pre: "stats pre = []" "logged_errors pre = []" "stamps pre = []" "quiet \<Longrightarrow> pre = []"
    by (simp_all add: pre_def)
  have u: "URL repo @ ''/ChangeLog.txt'' = u"
    by (simp add: repo_def assms(2))
  show ?thesis
  proof (cases "stat_fault env (tick w0) p")
    case (Some m)
    have "fs = (None, emit (EvLogError release (Foreign m)) (emit (EvStat p) w0))"
      unfolding assms(3) using Some by (intro fetch_step_stat_fault) (simp_all add: w0_def assms(1))
    then show ?thesis
      using w0 pre
      by (intro exI [of _ "pre @ [EvStat p, EvLogError release (Foreign m)]"])
         (simp add: emit_simps stats_append logged_errors_append stamps_append)
  next
    case None
    show ?thesis
    proof (cases "files w p")
      case absent: None
      obtain es mt err where c: "ChangeLog env repo (emit (EvStat p) w0)
             = ((es, mt, err), emit (EvGet u) (emit (EvStat p) w0))"
        using ChangeLog_shape [of env repo "emit (EvStat p) w0"] u by auto
      have fs: "fs = (case err of Some e \<Rightarrow> (None, emit (EvLogError release e) (emit (EvGet u) (emit (EvStat p) w0)))
                        | None \<Rightarrow> (Some (es, mt), emit (EvGet u) (emit (EvStat p) w0)))"
        unfolding assms(3) using None absent c
        by (intro fetch_step_absent) (simp_all add: w0_def assms(1) repo_def)
      show ?thesis
      proof (cases err)
        case None
        then show ?thesis using fs w0 pre
          by (intro exI [of _ "pre @ [EvStat p, EvGet u]"])
             (simp add: emit_simps stats_append logged_errors_append stamps_append)
      next
        case (Some e)
        then show ?thesis using fs w0 pre
          by (intro exI [of _ "pre @ [EvStat p, EvGet u, EvLogError release e]"])
             (simp add: emit_simps stats_append logged_errors_append stamps_append)
      qed
    next
      case present: (Some f)
      let ?w1 = "emit (EvStat p) w0"
      obtain es mt err w2 where c: "NewerChangeLog env repo (modtime f) ?w1 = ((es, mt, err), w2)"
        and shape: "(w2 = emit (EvHead u) ?w1 \<and> err \<noteq> None)
                  \<or> (w2 = emit (EvGet u) (emit (EvHead u) ?w1) \<and> err \<noteq> Some NotNewer)"
        using NewerChangeLog_shape [of env repo "modtime f" ?w1] u by auto
      have fs: "fs = (case err of
                Some e \<Rightarrow> (None, if e = NotNewer \<and> quiet then w2 else emit (EvLogError release e) w2)
              | None \<Rightarrow> (Some (es, mt), w2))"
        unfolding assms(3) using None present c
        by (intro fetch_step_present) (simp_all add: w0_def assms(1) repo_def)
      from shape show ?thesis
      proof
        assume a: "w2 = emit (EvHead u) ?w1 \<and> err \<noteq> None"
        then obtain e where e: "err = Some e" by auto
        show ?thesis
        proof (cases "e = NotNewer \<and> quiet")
          case True
          then show ?thesis using fs a e w0 pre
            by (intro exI [of _ "[EvStat p, EvHead u]"]) (simp add: emit_simps)
        next
          case False
          then show ?thesis using fs a e w0 pre
            by (intro exI [of _ "pre @ [EvStat p, EvHead u, EvLogError release e]"])
               (auto simp add: emit_simps stats_append logged_errors_append stamps_append)
        qed
      next
        assume a: "w2 = emit (EvGet u) (emit (EvHead u) ?w1) \<and> err \<noteq> Some NotNewer"
        show ?thesis
        proof (cases err)
          case None
          then show ?thesis using fs a w0 pre
            by (intro exI [of _ "pre @ [EvStat p, EvHead u, EvGet u]"])
               (simp add: emit_simps stats_append logged_errors_append stamps_append)
        next
          case (Some e)
          then show ?thesis using fs a w0 pre
            by (intro exI [of _ "pre @ [EvStat p, EvHead u, EvGet u, EvLogError release e]"])
               (auto simp add: emit_simps stats_append logged_errors_append stamps_append)
        qed
      qed
    qed
  qed
qed

lemma persist_outcome:
  assumes "p = filepath_Join env dest (Prefix mirror @ release @ ''.rss'')"
      and "w' = persist env dest mirror release repo entries mtime w"
  shows "\<exists>evs. trace w' = trace w @ evs \<and> stats evs = []
           \<and> ((\<exists>e. logged_errors evs = [(release, e)])
              \<or> (logged_errors evs = []
                 \<and> (\<exists>out. evs = [EvCreate p, EvWrite p out, EvClose p, EvChtimes p mtime mtime]
                          \<and> (\<exists>t'. files w' p = Some \<lparr>content = out, modtime = t'\<rparr>))))"
proof (cases "changelog_ToFeed env (URL repo @ ''/'' @ release) entries")
  case (Inl m)
  show ?thesis
    unfolding assms(2) persist_tofeed_fail [OF Inl]
    by (intro exI [of _ "[EvLogError release (Foreign m)]"]) (simp add: emit_simps)
next
  case (Inr feeds0)
  show ?thesis
  proof (cases "create_fault env (tick w) p")
    case (Some m)
    show ?thesis
      unfolding assms(2) persist_create_fail [OF Inr assms(1) Some]
      by (intro exI [of _ "[EvCreate p, EvLogError release (Foreign m)]"]) (simp add: emit_simps)
  next
    case None
    obtain out err where wr: "feed_WriteRss env (Suc (tick w))
             (feeds0\<lparr>Title := ''ChangeLog.txt for '' @ Prefix mirror @ release\<rparr>) = (out, err)"
      by (cases "feed_WriteRss env (Suc (tick w))
             (feeds0\<lparr>Title := ''ChangeLog.txt for '' @ Prefix mirror @ release\<rparr>)") auto
    show ?thesis
    proof (cases err)
      case (Some m)
      show ?thesis
        using persist_write_fail(1) [OF Inr assms(1) None wr [unfolded Some] assms(2)]
        by (intro exI [of _ "[EvCreate p, EvWrite p out, EvLogError release (Foreign m), EvClose p]"])
           simp
    next
      case ok: None
      note facts = persist_write_ok [OF Inr assms(1) None wr [unfolded ok] assms(2)]
      show ?thesis
      proof (cases "chtimes_fault env (tick w + 3) p")
        case None
        show ?thesis
          using facts(1,2) [OF None]
          by (intro exI [of _ "[EvCreate p, EvWrite p out, EvClose p, EvChtimes p mtime mtime]"])
             simp
      next
        case (Some m)
        show ?thesis
          using facts(3) [OF Some]
          by (intro exI [of _ "[EvCreate p, EvWrite p out, EvClose p, EvChtimes p mtime mtime,
                                 EvLogError release (Foreign m)]"])
             simp
      qed
    qed
  qed
qed

lemma process_release_outcome:
  assumes "p = filepath_Join env dest (Prefix mirror @ release @ ''.rss'')"
      and "u = MirrorURL mirror @ ''/ChangeLog.txt''"
      and "w' = process_release env quiet dest mirror release w"
  shows "\<exists>evs. trace w' = trace w @ evs \<and> stats evs = [p]
           \<and> ((\<exists>e. logged_errors evs = [(release, e)])
              \<or> (logged_errors evs = [] \<and> quiet \<and> evs = [EvStat p, EvHead u])
              \<or> (logged_errors evs = []
                 \<and> (\<exists>pre out t. evs = pre @ [EvCreate p, EvWrite p out, EvClose p, EvChtimes p t t]
                          \<and> (\<exists>t'. files w' p = Some \<lparr>content = out, modtime = t'\<rparr>))))"
proof -
  define fs where "fs = fetch_step env quiet dest mirror release w"
  obtain evs1 where f:
    "trace (snd fs) = trace w @ evs1" "stats evs1 = [p]"
    "case fst fs of
       Some x \<Rightarrow> logged_errors evs1 = []
     | None \<Rightarrow> (\<exists>e. logged_errors evs1 = [(release, e)]) \<or> (quiet \<and> evs1 = [EvStat p, EvHead u])"
    using fetch_step_outcome [OF assms(1,2) fs_def] by blast
  show ?thesis
  proof (cases "fst fs")
    case None
    then have "w' = snd fs"
      unfolding assms(3) process_release_def fs_def [symmetric] by (cases fs) simp
    then show ?thesis
      using f None by (intro exI [of _ evs1]) auto
  next
    case (Some x)
    obtain es mt where x: "x = (es, mt)" by (cases x)
    have w': "w' = persist env dest mirror release \<lparr>URL = MirrorURL mirror, Release = release\<rparr>
                     es mt (snd fs)"
      unfolding assms(3) process_release_def fs_def [symmetric] using Some x by (cases fs) simp
    obtain evs2 where g: "trace w' = trace (snd fs) @ evs2" "stats evs2 = []"
      "(\<exists>e. logged_errors evs2 = [(release, e)])
       \<or> (logged_errors evs2 = []
          \<and> (\<exists>out. evs2 = [EvCreate p, EvWrite p out, EvClose p, EvChtimes p mt mt]
                   \<and> (\<exists>t'. files w' p = Some \<lparr>content = out, modtime = t'\<rparr>)))"
      using persist_outcome [OF assms(1) w'] by blast
    have l1: "logged_errors evs1 = []" using f(3) Some by simp
    from g(3) show ?thesis
    proof
      assume "\<exists>e. logged_errors evs2 = [(release, e)]"
      then show ?thesis
        using f g l1 by (intro exI [of _ "evs1 @ evs2"]) (simp add: stats_append logged_errors_append)
    next
      assume "logged_errors evs2 = []
          \<and> (\<exists>out. evs2 = [EvCreate p, EvWrite p out, EvClose p, EvChtimes p mt mt]
                   \<and> (\<exists>t'. files w' p = Some \<lparr>content = out, modtime = t'\<rparr>))"
      then show ?thesis
        using f g l1
        by (intro exI [of _ "evs1 @ evs2"]) (auto simp add: stats_append logged_errors_append)
    qed
  qed
qed

lemma stats_process_release:
  "stats (trace (process_release env quiet dest mirror release w))
     = stats (trace w) @ [filepath_Join env dest (Prefix mirror @ release @ ''.rss'')]"
  using process_release_outcome [OF refl refl refl, where env = env and dest = dest
      and mirror = mirror and release = release and quiet = quiet and w = w]
  by (auto simp: stats_append)

lemma stats_releases_loop:
  "stats (trace (releases_loop env quiet dest mirror rs w))
     = stats (trace w) @ map (\<lambda>release. filepath_Join env dest (Prefix mirror @ release @ ''.rss'')) rs"
  by (induction rs arbitrary: w) (simp_all add: stats_process_release)

lemma stats_mirrors_loop:
  "stats (trace (mirrors_loop env quiet dest ms w))
     = stats (trace w)
       @ concat (map (\<lambda>m. map (\<lambda>release. filepath_Join env dest (Prefix m @ release @ ''.rss''))
                            (Releases m)) ms)"
  by (induction ms arbitrary: w) (simp_all add: stats_releases_loop)

lemma ChangeLog_success:
  assumes "ChangeLog env r w = ((es, mt, None), w1)"
  shows "\<exists>resp. http_Get env (tick w) (URL r @ ''/ChangeLog.txt'') = Inr resp
           \<and> StatusCode resp = StatusOK
           \<and> http_ParseTime env (Header_Get (Header resp) ''last-modified'') = Inr mt
           \<and> changelog_Parse env (Body resp) = Inr es
           \<and> w1 = emit (EvGet (URL r @ ''/ChangeLog.txt'')) w"
  using assms by (auto simp: ChangeLog_def get_eq split: sum.splits if_splits)

lemma NewerChangeLog_success:
  assumes "NewerChangeLog env r than w = ((es, mt, None), w1)"
  shows "\<exists>resp. http_Get env (Suc (tick w)) (URL r @ ''/ChangeLog.txt'') = Inr resp
           \<and> StatusCode resp = StatusOK
           \<and> http_ParseTime env (Header_Get (Header resp) ''last-modified'') = Inr mt
           \<and> changelog_Parse env (Body resp) = Inr es
           \<and> w1 = emit (EvGet (URL r @ ''/ChangeLog.txt'')) (emit (EvHead (URL r @ ''/ChangeLog.txt'')) w)"
proof -
  have "ChangeLog env r (emit (EvHead (URL r @ ''/ChangeLog.txt'')) w) = ((es, mt, None), w1)"
    using assms by (auto simp: NewerChangeLog_def head_eq split: sum.splits if_splits)
  from ChangeLog_success [OF this] show ?thesis by (simp add: emit_simps)
qed

lemma fetch_step_success:
  assumes "fetch_step env quiet dest mirror release w = (Some (es, mt), w1)"
  shows "\<exists>resp. http_Get env (tick w1 - 1) (MirrorURL mirror @ ''/ChangeLog.txt'') = Inr resp
           \<and> StatusCode resp = StatusOK
           \<and> http_ParseTime env (Header_Get (Header resp) ''last-modified'') = Inr mt
           \<and> changelog_Parse env (Body resp) = Inr es"
    and "files w1 = files w"
proof -
  define w0 where "w0 = (if quiet then w else emit (EvLogProcessing (MirrorURL mirror @ ''/'' @ release)) w)"
  define p where "p = filepath_Join env dest (Prefix mirror @ release @ ''.rss'')"
  define repo where "repo = \<lparr>URL = MirrorURL mirror, Release = release\<rparr>"
  have u: "URL repo @ ''/ChangeLog.txt'' = MirrorURL mirror @ ''/ChangeLog.txt''"
    by (simp add: repo_def)
  have f0: "files w0 = files w" by (simp add: w0_def emit_simps)
  have goal: "(\<exists>resp. http_Get env (tick w1 - 1) (MirrorURL mirror @ ''/ChangeLog.txt'') = Inr resp
           \<and> StatusCode resp = StatusOK
           \<and> http_ParseTime env (Header_Get (Header resp) ''last-modified'') = Inr mt
           \<and> changelog_Parse env (Body resp) = Inr es) \<and> files w1 = files w"
  proof (cases "stat_fault env (tick w0) p")
    case (Some m)
    show ?thesis
      using assms fetch_step_stat_fault [OF w0_def p_def Some] by simp
  next
    case None
    show ?thesis
    proof (cases "files w p")
      case absent: None
      obtain es' mt' err w2 where c: "ChangeLog env repo (emit (EvStat p) w0) = ((es', mt', err), w2)"
        by (metis prod_cases3 surj_pair)
      have "err = None \<and> es' = es \<and> mt' = mt \<and> w2 = w1"
        using assms fetch_step_absent [OF w0_def p_def None absent c [unfolded repo_def]]
        by (cases err) simp_all
      with c have "ChangeLog env repo (emit (EvStat p) w0) = ((es, mt, None), w1)" by simp
      from ChangeLog_success [OF this] show ?thesis
        using f0 unfolding u by (auto simp: emit_simps)
    next
      case present: (Some f)
      obtain es' mt' err w2 where c:
        "NewerChangeLog env repo (modtime f) (emit (EvStat p) w0) = ((es', mt', err), w2)"
        by (metis prod_cases3 surj_pair)
      have "err = None \<and> es' = es \<and> mt' = mt \<and> w2 = w1"
        using assms fetch_step_present [OF w0_def p_def None present c [unfolded repo_def]]
        by (cases err) simp_all
      with c have "NewerChangeLog env repo (modtime f) (emit (EvStat p) w0) = ((es, mt, None), w1)"
        by simp
      from NewerChangeLog_success [OF this] show ?thesis
        using f0 unfolding u by (auto simp: emit_simps)
    qed
  qed
  from goal show "\<exists>resp. http_Get env (tick w1 - 1) (MirrorURL mirror @ ''/ChangeLog.txt'') = Inr resp
           \<and> StatusCode resp = StatusOK
           \<and> http_ParseTime env (Header_Get (Header resp) ''last-modified'') = Inr mt
           \<and> changelog_Parse env (Body resp) = Inr es" by blast
  from goal show "files w1 = files w" by blast
qed

lemma process_release_persist:
  assumes "fetch_step env quiet dest mirror release w = (Some (es, mt), w1)"
  shows "process_release env quiet dest mirror release w
           = persist env dest mirror release \<lparr>URL = MirrorURL mirror, Release = release\<rparr> es mt w1"
  using assms by (simp add: process_release_def)

lemma stamps_fetch_step:
  assumes "fetch_step env quiet dest mirror release w = (r, w1)"
  shows "stamps (trace w1) = stamps (trace w)"
  using fetch_step_outcome [OF refl refl refl, where env = env and quiet = quiet and dest = dest
      and mirror = mirror and release = release and w = w] assms
  by (auto simp: stamps_append)

text \<open>Evaluating the loop body on the concrete inputs.\<close>

lemmas demo_defs = demo_env_def demo_repo_def demo_mirror_def demo_world_def demo_world_fed_def
  demo_response_def demo_stamp_def

lemmas run_defs = fetch_step_def os_Stat_eq NewerChangeLog_def ChangeLog_def head_eq get_eq
  http_ParseTime_def Header_Get_def StatusOK_def After_def Unix_def log_Println_def Let_def


lemma demo_fetch_present:
  "fetch_step (demo_env\<lparr>feed_WriteRss := wr, create_fault := cf, chtimes_fault := tf\<rparr>)
      True ''/feeds'' demo_mirror ''slackware-14.2'' (demo_world_fed (Unix 100 0))
     = (Some ([demo_entry], Unix 200 0),
        emit (EvGet ''http://mirror.example/ChangeLog.txt'')
          (emit (EvHead ''http://mirror.example/ChangeLog.txt'')
             (emit (EvStat ''/feeds/alpha-slackware-14.2.rss'') (demo_world_fed (Unix 100 0)))))"
  by (simp add: run_defs demo_defs emit_simps)

text \<open>The two loops as one fold of the loop body, and the segments of its trace.\<close>

lemma releases_loop_fold:
  "releases_loop env quiet dest m rs w = fold (process_release env quiet dest m) rs w"
  by (induction rs arbitrary: w) simp_all

lemma mirrors_loop_fold:
  "mirrors_loop env quiet dest ms w
     = fold (\<lambda>(m, r). process_release env quiet dest m r) (release_pairs ms) w"
proof (induction ms arbitrary: w)
  case Nil
  then show ?case by (simp add: release_pairs_def)
next
  case (Cons m ms)
  have "release_pairs (m # ms) = map (Pair m) (Releases m) @ release_pairs ms"
    by (simp add: release_pairs_def)
  moreover have "fold (\<lambda>(m, r). process_release env quiet dest m r) (map (Pair m) (Releases m)) w
                   = fold (process_release env quiet dest m) (Releases m) w"
    by (simp add: fold_map comp_def)
  ultimately show ?case
    using Cons.IH by (simp add: releases_loop_fold)
qed

lemma process_release_segment:
  "\<exists>evs. trace (process_release env quiet dest m r w) = trace w @ evs
         \<and> release_segment (filepath_Join env dest (Prefix m @ r @ ''.rss''))
              (MirrorURL m @ ''/ChangeLog.txt'') r quiet evs"
  using process_release_outcome [OF refl refl refl, where env = env and dest = dest
      and mirror = m and release = r and quiet = quiet and w = w]
  unfolding release_segment_def by blast

lemma fold_segments:
  "\<exists>segs. trace (fold (\<lambda>(m, r). process_release env quiet dest m r) ps w) = trace w @ concat segs
         \<and> list_all2 (\<lambda>(m, r) evs.
                release_segment (filepath_Join env dest (Prefix m @ r @ ''.rss''))
                  (MirrorURL m @ ''/ChangeLog.txt'') r quiet evs) ps segs"
proof (induction ps arbitrary: w)
  case Nil
  show ?case by (intro exI [of _ "[]"]) simp
next
  case (Cons a ps)
  obtain m r where a: "a = (m, r)" by (cases a)
  let ?w1 = "process_release env quiet dest m r w"
  obtain evs where e: "trace ?w1 = trace w @ evs"
      "release_segment (filepath_Join env dest (Prefix m @ r @ ''.rss''))
              (MirrorURL m @ ''/ChangeLog.txt'') r quiet evs"
    using process_release_segment [of env quiet dest m r w] by blast
  obtain segs where s:
      "trace (fold (\<lambda>(m, r). process_release env quiet dest m r) ps ?w1) = trace ?w1 @ concat segs"
      "list_all2 (\<lambda>(m, r) evs.
                release_segment (filepath_Join env dest (Prefix m @ r @ ''.rss''))
                  (MirrorURL m @ ''/ChangeLog.txt'') r quiet evs) ps segs"
    using Cons.IH [of ?w1] by blast
  show ?case
    using e s by (intro exI [of _ "evs # segs"]) (simp add: a)
qed














section \<open>Facts about the parser\<close>

lemma parse_lines_skip:
  "\<forall>l \<in> set pre. header l = None \<Longrightarrow>
   parse_lines header change Outside (pre @ rest) = parse_lines header change Outside rest"
  by (induction pre) simp_all

lemma parse_lines_body:
  "\<forall>l \<in> set body. header l = None \<Longrightarrow>
   parse_lines header change (Inside e) (body @ rest)
     = parse_lines header change (Inside (foldl (add_line change) e body)) rest"
  by (induction body arbitrary: e) simp_all

lemma parse_lines_blocks:
  "\<forall>(h, t, body) \<in> set blocks. header h = Some t \<and> (\<forall>l \<in> set body. header l = None) \<Longrightarrow>
   parse_lines header change st (block_lines blocks)
     = flush st @ map (\<lambda>(h, t, body). block_entry change t body) blocks"
proof (induction blocks arbitrary: st)
  case Nil
  then show ?case by (simp add: block_lines_def)
next
  case (Cons b blocks)
  obtain h t body where b: "b = (h, t, body)" by (cases b)
  have h: "header h = Some t" and body: "\<forall>l \<in> set body. header l = None"
    using Cons.prems b by auto
  have rest: "\<forall>(h, t, body) \<in> set blocks. header h = Some t \<and> (\<forall>l \<in> set body. header l = None)"
    using Cons.prems by auto
  have "parse_lines header change st (block_lines (b # blocks))
          = flush st @ parse_lines header change (Inside \<lparr>Date = t, Changes = [], Updates = []\<rparr>)
                         (body @ block_lines blocks)"
    using h by (simp add: block_lines_def b)
  also have "\<dots> = flush st @ parse_lines header change (Inside (block_entry change t body))
                         (block_lines blocks)"
    using parse_lines_body [OF body] by (simp add: block_entry_def)
  also have "\<dots> = flush st @ block_entry change t body
                         # map (\<lambda>(h, t, body). block_entry change t body) blocks"
    using Cons.IH [OF rest] by simp
  finally show ?case by (simp add: b)
qed

lemma add_line_Date: "Date (foldl (add_line change) e body) = Date e"
  by (induction body arbitrary: e) (simp_all add: add_line_def split: option.splits)

lemma add_line_Updates:
  "Updates (foldl (add_line change) e body)
     = Updates e @ List.map_filter change (filter (\<lambda>l. \<not> blank l) body)"
  by (induction body arbitrary: e)
     (simp_all add: add_line_def List.map_filter_simps split: option.splits)

section \<open>Properties\<close>

text \<open>
  C1. When the metadata request succeeds with a parsable modification time,
  \<open>NewerChangeLog\<close> returns the \<open>NotNewer\<close> signal exactly when the remote time is not
  strictly after the given one (in particular when the two are equal), and when the
  remote time is strictly after it returns what \<open>ChangeLog\<close> returns for the same
  repository at that moment, the world after the metadata request.
\<close>

theorem NewerChangeLog_gate:
  assumes "http_Head env (tick w) (URL r @ ''/ChangeLog.txt'') = Inr resp"
      and "StatusCode resp = StatusOK"
      and "http_ParseTime env (Header_Get (Header resp) ''last-modified'') = Inr remote"
  shows "(fetched_err (NewerChangeLog env r than w) = Some NotNewer \<longleftrightarrow> \<not> After remote than)
       \<and> (remote = than \<longrightarrow> fetched_err (NewerChangeLog env r than w) = Some NotNewer)
       \<and> (After remote than \<longrightarrow>
            NewerChangeLog env r than w
              = ChangeLog env r (emit (EvHead (URL r @ ''/ChangeLog.txt'')) w))"
proof -
  let ?w1 = "emit (EvHead (URL r @ ''/ChangeLog.txt'')) w"
  have h: "head env r ''ChangeLog.txt'' w = (Inr resp, ?w1)"
    using assms(1) by (simp add: head_eq)
  have newer: "NewerChangeLog env r than w = ChangeLog env r ?w1" if "After remote than"
    using that assms(2,3) h by (simp add: NewerChangeLog_def)
  have older: "fetched_err (NewerChangeLog env r than w) = Some NotNewer" if "\<not> After remote than"
    using that assms(2,3) h by (simp add: NewerChangeLog_def fetched_err_def)
  have "fetched_err (NewerChangeLog env r than w) \<noteq> Some NotNewer" if "After remote than"
    using newer [OF that] ChangeLog_never_NotNewer [of env r ?w1] by simp
  with older newer show ?thesis by (auto simp: After_def)
qed

theorem NewerChangeLog_gate_witness:
  "fetched_err (NewerChangeLog demo_env demo_repo (Unix 200 0) demo_world) = Some NotNewer
   \<and> fetched_err (NewerChangeLog demo_env demo_repo (Unix 201 0) demo_world) = Some NotNewer
   \<and> NewerChangeLog demo_env demo_repo (Unix 199 0) demo_world
       = (([demo_entry], Unix 200 0, None),
          \<lparr>tick = 2, files = Map.empty,
           trace = [EvHead ''http://mirror.example/ChangeLog.txt'',
                    EvGet ''http://mirror.example/ChangeLog.txt'']\<rparr>)"
proof -
  let ?resp = "demo_response 200 demo_stamp ''http://mirror.example/ChangeLog.txt''"
  have h1: "http_Head demo_env (tick demo_world) (URL demo_repo @ ''/ChangeLog.txt'') = Inr ?resp"
    by (simp add: demo_env_def demo_repo_def)
  have h2: "StatusCode ?resp = StatusOK"
    by (simp add: demo_response_def StatusOK_def)
  have h3: "http_ParseTime demo_env (Header_Get (Header ?resp) ''last-modified'') = Inr (Unix 200 0)"
    by (simp add: http_ParseTime_def Header_Get_def demo_response_def demo_stamp_def demo_env_def)
  have c: "ChangeLog demo_env demo_repo (emit (EvHead (URL demo_repo @ ''/ChangeLog.txt'')) demo_world)
       = (([demo_entry], Unix 200 0, None),
          \<lparr>tick = 2, files = Map.empty,
           trace = [EvHead ''http://mirror.example/ChangeLog.txt'',
                    EvGet ''http://mirror.example/ChangeLog.txt'']\<rparr>)"
    by (simp add: ChangeLog_def get_eq emit_def demo_env_def demo_repo_def demo_world_def
        demo_response_def demo_stamp_def StatusOK_def http_ParseTime_def Header_Get_def)
  show ?thesis
    using NewerChangeLog_gate [OF h1 h2 h3, of "Unix 200 0"]
      NewerChangeLog_gate [OF h1 h2 h3, of "Unix 201 0"]
      NewerChangeLog_gate [OF h1 h2 h3, of "Unix 199 0"] c
    by (simp add: After_def Unix_def)
qed

text \<open>
  C2, as stated, fails. A feed last modified at second 100 is in place, the remote is
  newer, the full fetch returns an entry, \<open>os.Create\<close> succeeds and \<open>WriteRss\<close> fails after
  five bytes: \<open>os.Chtimes\<close> is not called, but the file now holds those five bytes and
  the wall-clock time, not its former content and time.
\<close>

theorem write_failure_counterexample:
  "files (demo_world_fed (Unix 100 0)) ''/feeds/alpha-slackware-14.2.rss''
     = Some \<lparr>content = ''<rss>old</rss>'', modtime = Unix 100 0\<rparr>
   \<and> trace (process_release
            (demo_env\<lparr>feed_WriteRss := \<lambda>t f. (''<rss>'', Some ''no space left on device'')\<rparr>)
            True ''/feeds'' demo_mirror ''slackware-14.2'' (demo_world_fed (Unix 100 0)))
     = [EvStat ''/feeds/alpha-slackware-14.2.rss'',
        EvHead ''http://mirror.example/ChangeLog.txt'',
        EvGet ''http://mirror.example/ChangeLog.txt'',
        EvCreate ''/feeds/alpha-slackware-14.2.rss'',
        EvWrite ''/feeds/alpha-slackware-14.2.rss'' ''<rss>'',
        EvLogError ''slackware-14.2'' (Foreign ''no space left on device''),
        EvClose ''/feeds/alpha-slackware-14.2.rss'']
   \<and> files (process_release
            (demo_env\<lparr>feed_WriteRss := \<lambda>t f. (''<rss>'', Some ''no space left on device'')\<rparr>)
            True ''/feeds'' demo_mirror ''slackware-14.2'' (demo_world_fed (Unix 100 0)))
        ''/feeds/alpha-slackware-14.2.rss''
     = Some \<lparr>content = ''<rss>'', modtime = Unix 5000 0\<rparr>
   \<and> files (process_release
            (demo_env\<lparr>feed_WriteRss := \<lambda>t f. (''<rss>'', Some ''no space left on device'')\<rparr>)
            True ''/feeds'' demo_mirror ''slackware-14.2'' (demo_world_fed (Unix 100 0)))
        ''/feeds/alpha-slackware-14.2.rss''
     \<noteq> files (demo_world_fed (Unix 100 0)) ''/feeds/alpha-slackware-14.2.rss''"
  by (simp add: process_release_def persist_def run_defs demo_defs emit_simps put_file_simps
      os_Create_def WriteRss_def append_file_def os_Close_def)

text \<open>
  C2, amended. After a successful fetch and rendering: when \<open>os.Create\<close> fails,
  \<open>os.Chtimes\<close> is not called and the file system is as it was; when \<open>os.Create\<close>
  succeeds and \<open>WriteRss\<close> fails, \<open>os.Chtimes\<close> is not called, the error is logged, and
  the destination file holds exactly the bytes written before the failure, with the
  wall-clock time of its last change.
\<close>

theorem write_failure_leaves_partial_file:
  assumes "fetch_step env quiet dest mirror release w = (Some (entries, mtime), w1)"
      and "p = filepath_Join env dest (Prefix mirror @ release @ ''.rss'')"
      and "changelog_ToFeed env (MirrorURL mirror @ ''/'' @ release) entries = Inr feeds0"
      and "w' = process_release env quiet dest mirror release w"
  shows "(create_fault env (tick w1) p = Some m \<longrightarrow>
            stamps (trace w') = stamps (trace w) \<and> files w' = files w)
       \<and> (create_fault env (tick w1) p = None
            \<and> feed_WriteRss env (Suc (tick w1))
                 (feeds0\<lparr>Title := ''ChangeLog.txt for '' @ Prefix mirror @ release\<rparr>) = (out, Some m) \<longrightarrow>
            stamps (trace w') = stamps (trace w)
            \<and> trace w' = trace w1 @ [EvCreate p, EvWrite p out, EvLogError release (Foreign m), EvClose p]
            \<and> files w' p = Some \<lparr>content = out,
                  modtime = wall_clock env (if out = [] then tick w1 else Suc (tick w1))\<rparr>)"
proof -
  let ?repo = "\<lparr>URL = MirrorURL mirror, Release = release\<rparr>"
  have w': "w' = persist env dest mirror release ?repo entries mtime w1"
    using assms(1,4) by (simp add: process_release_persist)
  have tf: "changelog_ToFeed env (URL ?repo @ ''/'' @ release) entries = Inr feeds0"
    using assms(3) by simp
  have st: "stamps (trace w1) = stamps (trace w)"
    using stamps_fetch_step [OF assms(1)] .
  have fl: "files w1 = files w"
    using fetch_step_success(2) [OF assms(1)] .
  have one: "stamps (trace w') = stamps (trace w) \<and> files w' = files w"
    if "create_fault env (tick w1) p = Some m"
    using persist_create_fail [OF tf assms(2) that, of mtime] w' st fl
    by (simp add: emit_simps stamps_append)
  have two: "stamps (trace w') = stamps (trace w)
            \<and> trace w' = trace w1 @ [EvCreate p, EvWrite p out, EvLogError release (Foreign m), EvClose p]
            \<and> files w' p = Some \<lparr>content = out,
                  modtime = wall_clock env (if out = [] then tick w1 else Suc (tick w1))\<rparr>"
    if "create_fault env (tick w1) p = None"
       "feed_WriteRss env (Suc (tick w1))
                 (feeds0\<lparr>Title := ''ChangeLog.txt for '' @ Prefix mirror @ release\<rparr>) = (out, Some m)"
    using persist_write_fail(1,2) [OF tf assms(2) that w'] st
    by (simp add: stamps_append)
  show ?thesis
    using one two by blast
qed

theorem write_failure_leaves_partial_file_witness:
  "files (process_release
            (demo_env\<lparr>feed_WriteRss := \<lambda>t f. (''<rss>'', Some ''no space left on device''),
                       create_fault := \<lambda>t name. None, chtimes_fault := \<lambda>t name. None\<rparr>)
            True ''/feeds'' demo_mirror ''slackware-14.2'' (demo_world_fed (Unix 100 0)))
      ''/feeds/alpha-slackware-14.2.rss''
     = Some \<lparr>content = ''<rss>'', modtime = Unix 5000 0\<rparr>
   \<and> stamps (trace (process_release
            (demo_env\<lparr>feed_WriteRss := \<lambda>t f. (''<rss>'', Some ''no space left on device''),
                       create_fault := \<lambda>t name. None, chtimes_fault := \<lambda>t name. None\<rparr>)
            True ''/feeds'' demo_mirror ''slackware-14.2'' (demo_world_fed (Unix 100 0)))) = []
   \<and> files (process_release
            (demo_env\<lparr>feed_WriteRss := \<lambda>t f. (''<rss>'', None),
                       create_fault := \<lambda>t name. Some ''permission denied'',
                       chtimes_fault := \<lambda>t name. None\<rparr>)
            True ''/feeds'' demo_mirror ''slackware-14.2'' (demo_world_fed (Unix 100 0)))
     = files (demo_world_fed (Unix 100 0))"
proof -
  let ?p = "''/feeds/alpha-slackware-14.2.rss''"
  let ?full = "demo_env\<lparr>feed_WriteRss := \<lambda>t f. (''<rss>'', Some ''no space left on device''),
                       create_fault := \<lambda>t name. None, chtimes_fault := \<lambda>t name. None\<rparr>"
  let ?ro = "demo_env\<lparr>feed_WriteRss := \<lambda>t f. (''<rss>'', None),
                       create_fault := \<lambda>t name. Some ''permission denied'',
                       chtimes_fault := \<lambda>t name. None\<rparr>"
  let ?w = "demo_world_fed (Unix 100 0)"
  let ?feeds0 = "\<lparr>Title = [], Link = ''http://mirror.example/slackware-14.2'',
                  Items = [\<lparr>ItemTitle = [], ItemLink = ''http://mirror.example/slackware-14.2'',
                            Description = Changes demo_entry, Created = Date demo_entry\<rparr>]\<rparr>"
  have p: "?p = filepath_Join ?full ''/feeds'' (Prefix demo_mirror @ ''slackware-14.2'' @ ''.rss'')"
    "?p = filepath_Join ?ro ''/feeds'' (Prefix demo_mirror @ ''slackware-14.2'' @ ''.rss'')"
    by (simp_all add: demo_env_def demo_mirror_def)
  have tf: "changelog_ToFeed ?full (MirrorURL demo_mirror @ ''/'' @ ''slackware-14.2'') [demo_entry]
              = Inr ?feeds0"
    "changelog_ToFeed ?ro (MirrorURL demo_mirror @ ''/'' @ ''slackware-14.2'') [demo_entry]
              = Inr ?feeds0"
    by (simp_all add: demo_env_def demo_mirror_def)
  have st: "stamps (trace ?w) = []"
    by (simp add: demo_world_fed_def)
  show ?thesis
    using write_failure_leaves_partial_file [OF demo_fetch_present p(1) tf(1) refl,
        where out = "''<rss>''" and m = "''no space left on device''"]
      write_failure_leaves_partial_file [OF demo_fetch_present p(2) tf(2) refl,
        where m = "''permission denied''"] st
    by (simp add: emit_simps demo_env_def demo_world_fed_def)
qed






text \<open>
  C5. A response with status 200 whose \<open>Last-Modified\<close> header is absent, or present with
  a value the time parser rejects, makes both \<open>NewerChangeLog\<close> (on the metadata request)
  and \<open>ChangeLog\<close> (on the full request) return an error with no entries. For
  \<open>NewerChangeLog\<close> the error is not the \<open>NotNewer\<close> signal and the world after it
  holds the metadata request only: the remote is treated neither as unchanged nor as
  changed.
\<close>

theorem mtime_header_required:
  assumes "Header resp ''Last-Modified'' = None
         \<or> (\<exists>v. Header resp ''Last-Modified'' = Some v \<and> time_Parse env v = None)"
      and "StatusCode resp = StatusOK"
      and "u = URL r @ ''/ChangeLog.txt''"
  shows "(http_Head env (tick w) u = Inr resp \<longrightarrow>
            (\<exists>e. NewerChangeLog env r than w = (([], Unix 0 0, Some e), emit (EvHead u) w)
                 \<and> e \<noteq> NotNewer))
       \<and> (http_Get env (tick w) u = Inr resp \<longrightarrow>
            (\<exists>e. ChangeLog env r w = (([], Unix 0 0, Some e), emit (EvGet u) w)))"
proof -
  have bad: "http_ParseTime env (Header_Get (Header resp) ''last-modified'')
               = Inl (Foreign ''parsing time: cannot parse'')"
    using assms(1) by (auto simp: http_ParseTime_def Header_Get_def)
  show ?thesis
    using bad assms(2,3) by (simp add: NewerChangeLog_def ChangeLog_def head_eq get_eq)
qed

theorem mtime_header_required_witness:
  "(\<exists>e. NewerChangeLog
          (demo_env\<lparr>http_Head := \<lambda>t url. Inr (demo_response 200 Map.empty url)\<rparr>)
          demo_repo (Unix 100 0) demo_world
        = (([], Unix 0 0, Some e), emit (EvHead ''http://mirror.example/ChangeLog.txt'') demo_world)
      \<and> e \<noteq> NotNewer)
   \<and> (\<exists>e. ChangeLog
          (demo_env\<lparr>http_Get := \<lambda>t url. Inr (demo_response 200 [''Last-Modified'' \<mapsto> ''yesterday''] url)\<rparr>)
          demo_repo demo_world
        = (([], Unix 0 0, Some e), emit (EvGet ''http://mirror.example/ChangeLog.txt'') demo_world))"
proof -
  let ?u = "''http://mirror.example/ChangeLog.txt''"
  let ?env1 = "demo_env\<lparr>http_Head := \<lambda>t url. Inr (demo_response 200 Map.empty url)\<rparr>"
  let ?env2 = "demo_env\<lparr>http_Get := \<lambda>t url. Inr (demo_response 200 [''Last-Modified'' \<mapsto> ''yesterday''] url)\<rparr>"
  have u: "?u = URL demo_repo @ ''/ChangeLog.txt''"
    by (simp add: demo_repo_def)
  have a1: "Header (demo_response 200 Map.empty ?u) ''Last-Modified'' = None
         \<or> (\<exists>v. Header (demo_response 200 Map.empty ?u) ''Last-Modified'' = Some v
                \<and> time_Parse ?env1 v = None)"
    by (simp add: demo_response_def)
  have a2: "Header (demo_response 200 [''Last-Modified'' \<mapsto> ''yesterday''] ?u) ''Last-Modified'' = None
         \<or> (\<exists>v. Header (demo_response 200 [''Last-Modified'' \<mapsto> ''yesterday''] ?u) ''Last-Modified'' = Some v
                \<and> time_Parse ?env2 v = None)"
    by (simp add: demo_response_def demo_env_def)
  have s: "StatusCode (demo_response 200 h ?u) = StatusOK" for h
    by (simp add: demo_response_def StatusOK_def)
  have h1: "http_Head ?env1 (tick demo_world) ?u = Inr (demo_response 200 Map.empty ?u)"
    by simp
  have h2: "http_Get ?env2 (tick demo_world) ?u
              = Inr (demo_response 200 [''Last-Modified'' \<mapsto> ''yesterday''] ?u)"
    by simp
  show ?thesis
    using mtime_header_required [OF a1 s u, of demo_world "Unix 100 0"]
      mtime_header_required [OF a2 s u, of demo_world "Unix 100 0"] h1 h2
    by simp
qed

text \<open>
  C6. A response whose status is not 200 makes either fetch return an error whose text is
  the status code in decimal, \<open>status from\<close>, and the URL of the request; the loop body
  logs that error for the release, also in quiet mode, and the loop goes on with the
  releases that remain.
\<close>

theorem status_failure_reported:
  assumes "StatusCode resp \<noteq> StatusOK"
      and "u = MirrorURL mirror @ ''/ChangeLog.txt''"
      and "r = \<lparr>URL = MirrorURL mirror, Release = release\<rparr>"
      and "e = Errorf (Sprint_d (StatusCode resp) @ '' status from '' @ RequestURL resp)"
      and "p = filepath_Join env dest (Prefix mirror @ release @ ''.rss'')"
      and "w0 = (if quiet then w else emit (EvLogProcessing (MirrorURL mirror @ ''/'' @ release)) w)"
  shows "(http_Head env (tick w) u = Inr resp \<longrightarrow>
            NewerChangeLog env r than w = (([], Unix 0 0, Some e), emit (EvHead u) w))
       \<and> (http_Get env (tick w) u = Inr resp \<longrightarrow>
            ChangeLog env r w = (([], Unix 0 0, Some e), emit (EvGet u) w))
       \<and> Error e = Sprint_d (StatusCode resp) @ '' status from '' @ RequestURL resp
       \<and> (stat_fault env (tick w0) p = None \<and> files w p = None
            \<and> http_Get env (Suc (tick w0)) u = Inr resp \<longrightarrow>
          releases_loop env quiet dest mirror (release # rest) w
            = releases_loop env quiet dest mirror rest
                (emit (EvLogError release e) (emit (EvGet u) (emit (EvStat p) w0))))
       \<and> (stat_fault env (tick w0) p = None \<and> files w p = Some f
            \<and> http_Head env (Suc (tick w0)) u = Inr resp \<longrightarrow>
          releases_loop env quiet dest mirror (release # rest) w
            = releases_loop env quiet dest mirror rest
                (emit (EvLogError release e) (emit (EvHead u) (emit (EvStat p) w0))))"
proof -
  have u: "u = URL r @ ''/ChangeLog.txt''"
    using assms(2,3) by simp
  have newer: "NewerChangeLog env r than v = (([], Unix 0 0, Some e), emit (EvHead u) v)"
    if "http_Head env (tick v) u = Inr resp" for v than
    using that assms(1,4) u by (simp add: NewerChangeLog_def head_eq)
  have full: "ChangeLog env r v = (([], Unix 0 0, Some e), emit (EvGet u) v)"
    if "http_Get env (tick v) u = Inr resp" for v
    using that assms(1,4) u by (simp add: ChangeLog_def get_eq)
  have absent: "process_release env quiet dest mirror release w
                  = emit (EvLogError release e) (emit (EvGet u) (emit (EvStat p) w0))"
    if "stat_fault env (tick w0) p = None" "files w p = None"
       "http_Get env (Suc (tick w0)) u = Inr resp"
  proof -
    have "ChangeLog env \<lparr>URL = MirrorURL mirror, Release = release\<rparr> (emit (EvStat p) w0)
            = (([], Unix 0 0, Some e), emit (EvGet u) (emit (EvStat p) w0))"
      using full [of "emit (EvStat p) w0"] that(3) assms(3) by (simp add: emit_simps)
    from fetch_step_absent [OF assms(6,5) that(1,2) this]
    show ?thesis by (simp add: process_release_def)
  qed
  have present: "process_release env quiet dest mirror release w
                  = emit (EvLogError release e) (emit (EvHead u) (emit (EvStat p) w0))"
    if "stat_fault env (tick w0) p = None" "files w p = Some f"
       "http_Head env (Suc (tick w0)) u = Inr resp"
  proof -
    have "NewerChangeLog env \<lparr>URL = MirrorURL mirror, Release = release\<rparr> (modtime f)
            (emit (EvStat p) w0)
            = (([], Unix 0 0, Some e), emit (EvHead u) (emit (EvStat p) w0))"
      using newer [of "emit (EvStat p) w0"] that(3) assms(3) by (simp add: emit_simps)
    from fetch_step_present [OF assms(6,5) that(1,2) this]
    show ?thesis using assms(4) by (simp add: process_release_def)
  qed
  show ?thesis
    using newer [of w than] full [of w] absent present assms(4) by simp
qed

theorem status_failure_reported_witness:
  "ChangeLog (demo_env\<lparr>http_Get := \<lambda>t url. Inr (demo_response 404 Map.empty url)\<rparr>)
      demo_repo demo_world
     = (([], Unix 0 0, Some (Errorf ''404 status from http://mirror.example/ChangeLog.txt'')),
        emit (EvGet ''http://mirror.example/ChangeLog.txt'') demo_world)
   \<and> releases_loop (demo_env\<lparr>http_Get := \<lambda>t url. Inr (demo_response 404 Map.empty url)\<rparr>)
        True ''/feeds'' demo_mirror [''slackware-14.2'', ''slackware-current''] demo_world
     = releases_loop (demo_env\<lparr>http_Get := \<lambda>t url. Inr (demo_response 404 Map.empty url)\<rparr>)
        True ''/feeds'' demo_mirror [''slackware-current'']
        (emit (EvLogError ''slackware-14.2''
                 (Errorf ''404 status from http://mirror.example/ChangeLog.txt''))
           (emit (EvGet ''http://mirror.example/ChangeLog.txt'')
              (emit (EvStat ''/feeds/alpha-slackware-14.2.rss'') demo_world)))"
proof -
  let ?env = "demo_env\<lparr>http_Get := \<lambda>t url. Inr (demo_response 404 Map.empty url)\<rparr>"
  let ?u = "''http://mirror.example/ChangeLog.txt''"
  let ?resp = "demo_response 404 Map.empty ?u"
  have a1: "StatusCode ?resp \<noteq> StatusOK"
    by (simp add: demo_response_def StatusOK_def)
  have a2: "?u = MirrorURL demo_mirror @ ''/ChangeLog.txt''"
    by (simp add: demo_mirror_def)
  have a3: "demo_repo = \<lparr>URL = MirrorURL demo_mirror, Release = ''slackware-14.2''\<rparr>"
    by (simp add: demo_repo_def demo_mirror_def)
  have a4: "Errorf ''404 status from http://mirror.example/ChangeLog.txt''
              = Errorf (Sprint_d (StatusCode ?resp) @ '' status from '' @ RequestURL ?resp)"
    by (simp add: demo_response_def Sprint_d_def decimal.simps)
  have a5: "''/feeds/alpha-slackware-14.2.rss''
              = filepath_Join ?env ''/feeds'' (Prefix demo_mirror @ ''slackware-14.2'' @ ''.rss'')"
    by (simp add: demo_env_def demo_mirror_def)
  have a6: "demo_world = (if True then demo_world
              else emit (EvLogProcessing (MirrorURL demo_mirror @ ''/'' @ ''slackware-14.2'')) demo_world)"
    by simp
  have b: "stat_fault ?env (tick demo_world) ''/feeds/alpha-slackware-14.2.rss'' = None"
    "files demo_world ''/feeds/alpha-slackware-14.2.rss'' = None"
    "http_Get ?env t ?u = Inr ?resp" for t
    by (simp_all add: demo_env_def demo_world_def)
  show ?thesis
    using status_failure_reported [OF a1 a2 a3 a4 a5 a6, where rest = "[''slackware-current'']"]
      b
    by simp
qed

text \<open>
  C7. \<open>NewerChangeLog\<close> returns the \<open>NotNewer\<close> signal exactly when the metadata request
  succeeded with a parsable time that is not after the given one; no failure of the
  transport, of the status, of the header or of the full fetch is that value, and
  \<open>ChangeLog\<close> never returns it. In quiet mode the loop body logs nothing for
  \<open>NotNewer\<close> and logs every other error of either fetch.
\<close>

theorem not_newer_distinguished:
  assumes "p = filepath_Join env dest (Prefix mirror @ release @ ''.rss'')"
      and "r = \<lparr>URL = MirrorURL mirror, Release = release\<rparr>"
  shows "(fetched_err (NewerChangeLog env r than w) = Some NotNewer \<longleftrightarrow>
            (\<exists>resp remote. http_Head env (tick w) (URL r @ ''/ChangeLog.txt'') = Inr resp
                \<and> StatusCode resp = StatusOK
                \<and> http_ParseTime env (Header_Get (Header resp) ''last-modified'') = Inr remote
                \<and> \<not> After remote than))
       \<and> (stat_fault env (tick w) p = None \<and> files w p = Some f
            \<and> NewerChangeLog env r (modtime f) (emit (EvStat p) w) = ((es, mt, Some err), w2) \<longrightarrow>
          process_release env True dest mirror release w
            = (if err = NotNewer then w2 else emit (EvLogError release err) w2))
       \<and> (stat_fault env (tick w) p = None \<and> files w p = None
            \<and> ChangeLog env r (emit (EvStat p) w) = ((es, mt, Some err), w2) \<longrightarrow>
          err \<noteq> NotNewer
          \<and> process_release env True dest mirror release w = emit (EvLogError release err) w2)"
proof -
  let ?u = "URL r @ ''/ChangeLog.txt''"
  have sig: "fetched_err (NewerChangeLog env r than w) = Some NotNewer \<longleftrightarrow>
            (\<exists>resp remote. http_Head env (tick w) ?u = Inr resp
                \<and> StatusCode resp = StatusOK
                \<and> http_ParseTime env (Header_Get (Header resp) ''last-modified'') = Inr remote
                \<and> \<not> After remote than)"
  proof (cases "http_Head env (tick w) ?u")
    case (Inl m)
    then show ?thesis by (simp add: NewerChangeLog_def head_eq fetched_err_def)
  next
    case (Inr resp)
    show ?thesis
    proof (cases "StatusCode resp = StatusOK")
      case False
      then show ?thesis using Inr by (simp add: NewerChangeLog_def head_eq fetched_err_def)
    next
      case True
      show ?thesis
      proof (cases "http_ParseTime env (Header_Get (Header resp) ''last-modified'')")
        case (Inl e)
        then have "e \<noteq> NotNewer"
          by (auto simp: http_ParseTime_def split: if_splits option.splits)
        then show ?thesis
          using Inr True Inl by (simp add: NewerChangeLog_def head_eq fetched_err_def)
      next
        case remote: (Inr remote)
        show ?thesis
        proof (cases "After remote than")
          case False
          then show ?thesis
            using Inr True remote by (simp add: NewerChangeLog_def head_eq fetched_err_def)
        next
          case newer: True
          have "NewerChangeLog env r than w = ChangeLog env r (emit (EvHead ?u) w)"
            using Inr True remote newer by (simp add: NewerChangeLog_def head_eq)
          then show ?thesis
            using ChangeLog_never_NotNewer [of env r "emit (EvHead ?u) w"] Inr True remote newer
            by simp
        qed
      qed
    qed
  qed
  have w0: "w = (if True then w else emit (EvLogProcessing (MirrorURL mirror @ ''/'' @ release)) w)"
    by simp
  have present: "process_release env True dest mirror release w
            = (if err = NotNewer then w2 else emit (EvLogError release err) w2)"
    if "stat_fault env (tick w) p = None" "files w p = Some f"
       "NewerChangeLog env r (modtime f) (emit (EvStat p) w) = ((es, mt, Some err), w2)"
    using fetch_step_present [OF w0 assms(1) that(1,2) that(3) [unfolded assms(2)]]
    by (simp add: process_release_def)
  have absent: "err \<noteq> NotNewer
          \<and> process_release env True dest mirror release w = emit (EvLogError release err) w2"
    if "stat_fault env (tick w) p = None" "files w p = None"
       "ChangeLog env r (emit (EvStat p) w) = ((es, mt, Some err), w2)"
  proof -
    have "err \<noteq> NotNewer"
      using ChangeLog_never_NotNewer [of env r "emit (EvStat p) w"] that(3)
      by (auto simp: fetched_err_def)
    then show ?thesis
      using fetch_step_absent [OF w0 assms(1) that(1,2) that(3) [unfolded assms(2)]]
      by (simp add: process_release_def)
  qed
  show ?thesis
    using sig present absent by blast
qed

theorem not_newer_distinguished_witness:
  "fetched_err (NewerChangeLog demo_env demo_repo (Unix 200 0) demo_world) = Some NotNewer
   \<and> trace (process_release demo_env True ''/feeds'' demo_mirror ''slackware-14.2''
               (demo_world_fed (Unix 200 0)))
       = [EvStat ''/feeds/alpha-slackware-14.2.rss'', EvHead ''http://mirror.example/ChangeLog.txt'']
   \<and> trace (process_release
               (demo_env\<lparr>http_Head := \<lambda>t url. Inr (demo_response 503 Map.empty url)\<rparr>)
               True ''/feeds'' demo_mirror ''slackware-14.2'' (demo_world_fed (Unix 200 0)))
       = [EvStat ''/feeds/alpha-slackware-14.2.rss'', EvHead ''http://mirror.example/ChangeLog.txt'',
          EvLogError ''slackware-14.2''
            (Errorf ''503 status from http://mirror.example/ChangeLog.txt'')]"
proof -
  let ?p = "''/feeds/alpha-slackware-14.2.rss''"
  let ?u = "''http://mirror.example/ChangeLog.txt''"
  let ?bad = "demo_env\<lparr>http_Head := \<lambda>t url. Inr (demo_response 503 Map.empty url)\<rparr>"
  let ?w = "demo_world_fed (Unix 200 0)"
  let ?f = "\<lparr>content = ''<rss>old</rss>'', modtime = Unix 200 0\<rparr>"
  have p1: "?p = filepath_Join demo_env ''/feeds'' (Prefix demo_mirror @ ''slackware-14.2'' @ ''.rss'')"
    and p2: "?p = filepath_Join ?bad ''/feeds'' (Prefix demo_mirror @ ''slackware-14.2'' @ ''.rss'')"
    by (simp_all add: demo_env_def demo_mirror_def)
  have r: "demo_repo = \<lparr>URL = MirrorURL demo_mirror, Release = ''slackware-14.2''\<rparr>"
    by (simp add: demo_repo_def demo_mirror_def)
  have st: "stat_fault demo_env (tick ?w) ?p = None" "stat_fault ?bad (tick ?w) ?p = None"
    "files ?w ?p = Some ?f"
    by (simp_all add: demo_env_def demo_world_fed_def)
  have n1: "NewerChangeLog demo_env demo_repo (modtime ?f) (emit (EvStat ?p) ?w)
              = (([], Unix 0 0, Some NotNewer), emit (EvHead ?u) (emit (EvStat ?p) ?w))"
    by (simp add: NewerChangeLog_def head_eq demo_env_def demo_repo_def demo_response_def
        demo_stamp_def StatusOK_def http_ParseTime_def Header_Get_def After_def)
  have n2: "NewerChangeLog ?bad demo_repo (modtime ?f) (emit (EvStat ?p) ?w)
              = (([], Unix 0 0, Some (Errorf ''503 status from http://mirror.example/ChangeLog.txt'')),
                 emit (EvHead ?u) (emit (EvStat ?p) ?w))"
    by (simp add: NewerChangeLog_def head_eq demo_env_def demo_repo_def demo_response_def
        StatusOK_def Sprint_d_def decimal.simps)
  have ex: "\<exists>resp remote. http_Head demo_env (tick demo_world) (URL demo_repo @ ''/ChangeLog.txt'') = Inr resp
                \<and> StatusCode resp = StatusOK
                \<and> http_ParseTime demo_env (Header_Get (Header resp) ''last-modified'') = Inr remote
                \<and> \<not> After remote (Unix 200 0)"
    by (simp add: demo_env_def demo_response_def demo_stamp_def StatusOK_def http_ParseTime_def
        Header_Get_def After_def)
  have a: "fetched_err (NewerChangeLog demo_env demo_repo (Unix 200 0) demo_world) = Some NotNewer"
    using not_newer_distinguished [OF p1 r, of "Unix 200 0" demo_world] ex by blast
  have b: "process_release demo_env True ''/feeds'' demo_mirror ''slackware-14.2'' ?w
             = emit (EvHead ?u) (emit (EvStat ?p) ?w)"
    using not_newer_distinguished [OF p1 r, where w = ?w and f = ?f] st n1 by simp
  have c: "process_release ?bad True ''/feeds'' demo_mirror ''slackware-14.2'' ?w
             = emit (EvLogError ''slackware-14.2''
                  (Errorf ''503 status from http://mirror.example/ChangeLog.txt''))
                 (emit (EvHead ?u) (emit (EvStat ?p) ?w))"
    using not_newer_distinguished [OF p2 r, where w = ?w and f = ?f] st n2 by simp
  show ?thesis
    unfolding b c using a by (simp add: emit_simps demo_world_fed_def)
qed

text \<open>
  C8. On the parser modelled from the specification: a document read without error, whose
  lines are some lines without a header followed by N blocks (a header line with its date,
  then lines that are no headers), parses to exactly N entries, the entry of each block in
  document order. The changes of each entry are the change lines of its block, so a block
  without change lines gives an entry with no changes; the last block, which no header
  closes, is the last entry; and the empty document parses to the empty sequence.
\<close>

theorem Parse_blocks:
  assumes "broken rd = None"
      and "lines_of (bytes rd) = pre @ block_lines blocks"
      and "\<forall>l \<in> set pre. header l = None"
      and "\<forall>(h, t, body) \<in> set blocks. header h = Some t \<and> (\<forall>l \<in> set body. header l = None)"
      and "\<not> (lines_of (bytes rd) \<noteq> [] \<and> cut_short (last (lines_of (bytes rd))))"
  shows "\<exists>es. Parse header change cut_short rd = Inr es
           \<and> es = map (\<lambda>(h, t, body). block_entry change t body) blocks
           \<and> length es = length blocks
           \<and> map Date es = map (\<lambda>(h, t, body). t) blocks
           \<and> map Updates es
               = map (\<lambda>(h, t, body). List.map_filter change (filter (\<lambda>l. \<not> blank l) body)) blocks
           \<and> (\<forall>i < length blocks.
                 (\<forall>l \<in> set (snd (snd (blocks ! i))). change l = None) \<longrightarrow> Updates (es ! i) = [])
           \<and> (blocks \<noteq> [] \<longrightarrow>
                 last es = block_entry change (fst (snd (last blocks))) (snd (snd (last blocks))))
           \<and> (bytes rd = [] \<longrightarrow> es = [])
           \<and> Parse header change cut_short \<lparr>bytes = [], broken = None\<rparr> = Inr []"
proof -
  let ?es = "map (\<lambda>(h, t, body). block_entry change t body) blocks"
  have "parse_lines header change Outside (lines_of (bytes rd)) = ?es"
    unfolding assms(2) parse_lines_skip [OF assms(3)] parse_lines_blocks [OF assms(4)] by simp
  then have p: "Parse header change cut_short rd = Inr ?es"
    using assms(1,5) by (simp add: Parse_def Let_def)
  have d: "map Date ?es = map (\<lambda>(h, t, body). t) blocks"
    by (simp add: block_entry_def add_line_Date split_def)
  have u: "map Updates ?es
             = map (\<lambda>(h, t, body). List.map_filter change (filter (\<lambda>l. \<not> blank l) body)) blocks"
    by (simp add: block_entry_def add_line_Updates split_def)
  have none: "Updates (?es ! i) = []"
    if "i < length blocks" "\<forall>l \<in> set (snd (snd (blocks ! i))). change l = None" for i
  proof -
    have "Updates (?es ! i)
            = List.map_filter change (filter (\<lambda>l. \<not> blank l) (snd (snd (blocks ! i))))"
      using that(1) by (simp add: block_entry_def add_line_Updates split_def)
    also have "\<dots> = []"
      using that(2) by (simp add: List.map_filter_def)
    finally show ?thesis .
  qed
  have l: "last ?es = block_entry change (fst (snd (last blocks))) (snd (snd (last blocks)))"
    if "blocks \<noteq> []"
    using that by (simp add: last_map split_def)
  have e: "?es = []" if "bytes rd = []"
  proof -
    have "pre @ block_lines blocks = []"
      using assms(2) that by (simp add: lines_of_def)
    then have "blocks = []"
      by (cases blocks) (auto simp: block_lines_def)
    then show ?thesis by simp
  qed
  have z: "Parse header change cut_short \<lparr>bytes = [], broken = None\<rparr> = Inr []"
    by (simp add: Parse_def lines_of_def)
  show ?thesis
    using p d u none l e z by (intro exI [of _ ?es]) simp
qed

theorem Parse_blocks_witness:
  "Parse demo_header demo_change (\<lambda>l. False) demo_document
     = Inr [\<lparr>Date = Unix 1 0, Changes = ''Nothing to see.'' @ [CHR 0x0A], Updates = []\<rparr>,
            \<lparr>Date = Unix 2 0, Changes = [],
             Updates = [\<lparr>Name = ''a/bash-5.1.txz'', Action = ''Upgraded.''\<rparr>]\<rparr>]"
proof -
  let ?blocks = "[(''Thu Jan  1 00:00:01 UTC 1970'', Unix 1 0, [''Nothing to see.'', []]),
                  (''Thu Jan  1 00:00:02 UTC 1970'', Unix 2 0, [''a/bash-5.1.txz:  Upgraded.''])]"
  have a1: "broken demo_document = None"
    by (simp add: demo_document_def)
  have a2: "lines_of (bytes demo_document) = [] @ block_lines ?blocks"
    by (simp add: demo_document_def lines_of_def block_lines_def)
  have a3: "\<forall>l \<in> set []. demo_header l = None"
    by simp
  have a4: "\<forall>(h, t, body) \<in> set ?blocks.
              demo_header h = Some t \<and> (\<forall>l \<in> set body. demo_header l = None)"
    by (simp add: demo_header_def)
  have a5: "\<not> (lines_of (bytes demo_document) \<noteq> []
               \<and> (\<lambda>l. False) (last (lines_of (bytes demo_document))))"
    by simp
  show ?thesis
    using Parse_blocks [OF a1 a2 a3 a4 a5, of demo_change]
    by (simp add: block_entry_def add_line_def blank_def demo_change_def)
qed

text \<open>
  C9. The two loops are the fold of the loop body over the pairs of a mirror and a release,
  in the configured order: the world after the run is the one reached by running the body
  for every pair in turn, each from the world the one before left, whatever happened
  there. The trace of the run is one segment per pair, in order; each segment holds one stat
  of the destination of its release and ends in one of three ways: one error line naming
  the release was logged; or nothing was logged in quiet mode because the remote is not
  newer; or nothing was logged and the feed was written and its time set. A failure of the
  stat, of either fetch, of the rendering, of \<open>os.Create\<close>, of \<open>WriteRss\<close> or of
  \<open>os.Chtimes\<close> is logged with the release and ends the body.
\<close>

theorem every_release_processed:
  assumes "p = filepath_Join env dest (Prefix mirror @ release @ ''.rss'')"
      and "u = MirrorURL mirror @ ''/ChangeLog.txt''"
      and "repo = \<lparr>URL = MirrorURL mirror, Release = release\<rparr>"
      and "w0 = (if quiet then w else emit (EvLogProcessing (MirrorURL mirror @ ''/'' @ release)) w)"
      and "w' = process_release env quiet dest mirror release w"
  shows "mirrors_loop env quiet dest mirrors w
           = fold (\<lambda>(m, r). process_release env quiet dest m r) (release_pairs mirrors) w
       \<and> (\<exists>segs. trace (mirrors_loop env quiet dest mirrors w) = trace w @ concat segs
             \<and> list_all2 (\<lambda>(m, r) evs.
                    release_segment (filepath_Join env dest (Prefix m @ r @ ''.rss''))
                      (MirrorURL m @ ''/ChangeLog.txt'') r quiet evs) (release_pairs mirrors) segs)
       \<and> stats (trace (mirrors_loop env quiet dest mirrors w))
           = stats (trace w)
             @ concat (map (\<lambda>m. map (\<lambda>release. filepath_Join env dest (Prefix m @ release @ ''.rss''))
                                  (Releases m)) mirrors)
       \<and> (\<exists>evs. trace w' = trace w @ evs \<and> stats evs = [p]
             \<and> ((\<exists>e. logged_errors evs = [(release, e)])
                \<or> (logged_errors evs = [] \<and> quiet \<and> evs = [EvStat p, EvHead u])
                \<or> (logged_errors evs = []
                   \<and> (\<exists>pre out t. evs = pre @ [EvCreate p, EvWrite p out, EvClose p, EvChtimes p t t]
                            \<and> (\<exists>t'. files w' p = Some \<lparr>content = out, modtime = t'\<rparr>)))))
       \<and> (stat_fault env (tick w0) p = Some m \<longrightarrow>
            w' = emit (EvLogError release (Foreign m)) (emit (EvStat p) w0))
       \<and> (stat_fault env (tick w0) p = None \<and> files w p = None
            \<and> ChangeLog env repo (emit (EvStat p) w0) = ((es, mt, Some err), w2) \<longrightarrow>
            w' = emit (EvLogError release err) w2)
       \<and> (stat_fault env (tick w0) p = None \<and> files w p = Some f
            \<and> NewerChangeLog env repo (modtime f) (emit (EvStat p) w0) = ((es, mt, Some err), w2)
            \<and> \<not> (err = NotNewer \<and> quiet) \<longrightarrow>
            w' = emit (EvLogError release err) w2)
       \<and> (fetch_step env quiet dest mirror release w = (Some (entries, mtime), w1) \<longrightarrow>
            (changelog_ToFeed env (MirrorURL mirror @ ''/'' @ release) entries = Inl m \<longrightarrow>
               w' = emit (EvLogError release (Foreign m)) w1)
          \<and> (changelog_ToFeed env (MirrorURL mirror @ ''/'' @ release) entries = Inr feeds0 \<longrightarrow>
               (create_fault env (tick w1) p = Some m \<longrightarrow>
                  w' = emit (EvLogError release (Foreign m)) (emit (EvCreate p) w1))
             \<and> (create_fault env (tick w1) p = None
                  \<and> feed_WriteRss env (Suc (tick w1))
                       (feeds0\<lparr>Title := ''ChangeLog.txt for '' @ Prefix mirror @ release\<rparr>)
                      = (out, Some m) \<longrightarrow>
                  trace w' = trace w1 @ [EvCreate p, EvWrite p out,
                                         EvLogError release (Foreign m), EvClose p])
             \<and> (create_fault env (tick w1) p = None
                  \<and> feed_WriteRss env (Suc (tick w1))
                       (feeds0\<lparr>Title := ''ChangeLog.txt for '' @ Prefix mirror @ release\<rparr>)
                      = (out, None)
                  \<and> chtimes_fault env (tick w1 + 3) p = Some m \<longrightarrow>
                  trace w' = trace w1 @ [EvCreate p, EvWrite p out, EvClose p,
                                         EvChtimes p mtime mtime,
                                         EvLogError release (Foreign m)])))"
proof -
  have run: "mirrors_loop env quiet dest mirrors w
           = fold (\<lambda>(m, r). process_release env quiet dest m r) (release_pairs mirrors) w"
    by (rule mirrors_loop_fold)
  have segs: "\<exists>segs. trace (mirrors_loop env quiet dest mirrors w) = trace w @ concat segs
             \<and> list_all2 (\<lambda>(m, r) evs.
                    release_segment (filepath_Join env dest (Prefix m @ r @ ''.rss''))
                      (MirrorURL m @ ''/ChangeLog.txt'') r quiet evs) (release_pairs mirrors) segs"
    unfolding run by (rule fold_segments)
  have loop: "stats (trace (mirrors_loop env quiet dest mirrors w))
           = stats (trace w)
             @ concat (map (\<lambda>m. map (\<lambda>release. filepath_Join env dest (Prefix m @ release @ ''.rss''))
                                  (Releases m)) mirrors)"
    by (rule stats_mirrors_loop)
  note body = process_release_outcome [OF assms(1,2,5)]
  have stat: "w' = emit (EvLogError release (Foreign m)) (emit (EvStat p) w0)"
    if "stat_fault env (tick w0) p = Some m"
    using fetch_step_stat_fault [OF assms(4,1) that] assms(5) by (simp add: process_release_def)
  have absent: "w' = emit (EvLogError release err) w2"
    if "stat_fault env (tick w0) p = None" "files w p = None"
       "ChangeLog env repo (emit (EvStat p) w0) = ((es, mt, Some err), w2)"
    using fetch_step_absent [OF assms(4,1) that(1,2) that(3) [unfolded assms(3)]] assms(5)
    by (simp add: process_release_def)
  have present: "w' = emit (EvLogError release err) w2"
    if "stat_fault env (tick w0) p = None" "files w p = Some f"
       "NewerChangeLog env repo (modtime f) (emit (EvStat p) w0) = ((es, mt, Some err), w2)"
       "\<not> (err = NotNewer \<and> quiet)"
    using fetch_step_present [OF assms(4,1) that(1,2) that(3) [unfolded assms(3)]] assms(5) that(4)
    by (auto simp add: process_release_def)
  have tail: "(changelog_ToFeed env (MirrorURL mirror @ ''/'' @ release) entries = Inl m \<longrightarrow>
               w' = emit (EvLogError release (Foreign m)) w1)
          \<and> (changelog_ToFeed env (MirrorURL mirror @ ''/'' @ release) entries = Inr feeds0 \<longrightarrow>
               (create_fault env (tick w1) p = Some m \<longrightarrow>
                  w' = emit (EvLogError release (Foreign m)) (emit (EvCreate p) w1))
             \<and> (create_fault env (tick w1) p = None
                  \<and> feed_WriteRss env (Suc (tick w1))
                       (feeds0\<lparr>Title := ''ChangeLog.txt for '' @ Prefix mirror @ release\<rparr>)
                      = (out, Some m) \<longrightarrow>
                  trace w' = trace w1 @ [EvCreate p, EvWrite p out,
                                         EvLogError release (Foreign m), EvClose p])
             \<and> (create_fault env (tick w1) p = None
                  \<and> feed_WriteRss env (Suc (tick w1))
                       (feeds0\<lparr>Title := ''ChangeLog.txt for '' @ Prefix mirror @ release\<rparr>)
                      = (out, None)
                  \<and> chtimes_fault env (tick w1 + 3) p = Some m \<longrightarrow>
                  trace w' = trace w1 @ [EvCreate p, EvWrite p out, EvClose p,
                                         EvChtimes p mtime mtime,
                                         EvLogError release (Foreign m)]))"
    if fs: "fetch_step env quiet dest mirror release w = (Some (entries, mtime), w1)"
  proof -
    let ?repo = "\<lparr>URL = MirrorURL mirror, Release = release\<rparr>"
    have w': "w' = persist env dest mirror release ?repo entries mtime w1"
      using fs assms(5) by (simp add: process_release_persist)
    have a: "w' = emit (EvLogError release (Foreign m)) w1"
      if "changelog_ToFeed env (MirrorURL mirror @ ''/'' @ release) entries = Inl m"
      using persist_tofeed_fail [of env ?repo release entries m dest mirror mtime w1] that w'
      by simp
    have b: "w' = emit (EvLogError release (Foreign m)) (emit (EvCreate p) w1)"
      if "changelog_ToFeed env (MirrorURL mirror @ ''/'' @ release) entries = Inr feeds0"
         "create_fault env (tick w1) p = Some m"
      using persist_create_fail [of env ?repo release entries feeds0 p dest mirror w1 m mtime]
        that assms(1) w'
      by simp
    have c: "trace w' = trace w1 @ [EvCreate p, EvWrite p out,
                                         EvLogError release (Foreign m), EvClose p]"
      if "changelog_ToFeed env (MirrorURL mirror @ ''/'' @ release) entries = Inr feeds0"
         "create_fault env (tick w1) p = None"
         "feed_WriteRss env (Suc (tick w1))
                       (feeds0\<lparr>Title := ''ChangeLog.txt for '' @ Prefix mirror @ release\<rparr>)
                      = (out, Some m)"
      using persist_write_fail(1) [of env ?repo release entries feeds0 p dest mirror w1 out m w' mtime]
        that assms(1) w'
      by simp
    have d: "trace w' = trace w1 @ [EvCreate p, EvWrite p out, EvClose p,
                                         EvChtimes p mtime mtime,
                                         EvLogError release (Foreign m)]"
      if "changelog_ToFeed env (MirrorURL mirror @ ''/'' @ release) entries = Inr feeds0"
         "create_fault env (tick w1) p = None"
         "feed_WriteRss env (Suc (tick w1))
                       (feeds0\<lparr>Title := ''ChangeLog.txt for '' @ Prefix mirror @ release\<rparr>)
                      = (out, None)"
         "chtimes_fault env (tick w1 + 3) p = Some m"
      using persist_write_ok(3) [of env ?repo release entries feeds0 p dest mirror w1 out w' mtime m]
        that assms(1) w'
      by simp
    show ?thesis
      using a b c d by blast
  qed
  show ?thesis
    using run segs loop body stat absent present tail by blast
qed

theorem every_release_processed_witness:
  "mirrors_loop (demo_env\<lparr>http_Get := \<lambda>t url. Inl ''connection refused''\<rparr>)
       True ''/feeds'' [demo_mirror] demo_world
     = process_release (demo_env\<lparr>http_Get := \<lambda>t url. Inl ''connection refused''\<rparr>)
         True ''/feeds'' demo_mirror ''slackware-current''
         (process_release (demo_env\<lparr>http_Get := \<lambda>t url. Inl ''connection refused''\<rparr>)
            True ''/feeds'' demo_mirror ''slackware-14.2'' demo_world)
   \<and> stats (trace (mirrors_loop (demo_env\<lparr>http_Get := \<lambda>t url. Inl ''connection refused''\<rparr>)
                    True ''/feeds'' [demo_mirror] demo_world))
     = [''/feeds/alpha-slackware-14.2.rss'', ''/feeds/alpha-slackware-current.rss'']
   \<and> process_release (demo_env\<lparr>http_Get := \<lambda>t url. Inl ''connection refused''\<rparr>)
         True ''/feeds'' demo_mirror ''slackware-14.2'' demo_world
     = emit (EvLogError ''slackware-14.2'' (Foreign ''connection refused''))
         (emit (EvGet ''http://mirror.example/ChangeLog.txt'')
            (emit (EvStat ''/feeds/alpha-slackware-14.2.rss'') demo_world))"
proof -
  let ?env = "demo_env\<lparr>http_Get := \<lambda>t url. Inl ''connection refused''\<rparr>"
  let ?p = "''/feeds/alpha-slackware-14.2.rss''"
  let ?u = "''http://mirror.example/ChangeLog.txt''"
  let ?repo = "\<lparr>URL = MirrorURL demo_mirror, Release = ''slackware-14.2''\<rparr>"
  have a1: "?p = filepath_Join ?env ''/feeds'' (Prefix demo_mirror @ ''slackware-14.2'' @ ''.rss'')"
    by (simp add: demo_env_def demo_mirror_def)
  have a2: "?u = MirrorURL demo_mirror @ ''/ChangeLog.txt''"
    by (simp add: demo_mirror_def)
  have a4: "demo_world = (if True then demo_world
              else emit (EvLogProcessing (MirrorURL demo_mirror @ ''/'' @ ''slackware-14.2'')) demo_world)"
    by simp
  have b: "stat_fault ?env (tick demo_world) ?p = None \<and> files demo_world ?p = None
           \<and> ChangeLog ?env ?repo (emit (EvStat ?p) demo_world)
               = (([], Unix 0 0, Some (Foreign ''connection refused'')),
                  emit (EvGet ?u) (emit (EvStat ?p) demo_world))"
    by (simp add: ChangeLog_def get_eq demo_env_def demo_world_def demo_mirror_def)
  note th = every_release_processed [OF a1 a2 refl a4 refl, where mirrors = "[demo_mirror]"
        and es = "[]" and mt = "Unix 0 0" and err = "Foreign ''connection refused''"
        and ?w2.0 = "emit (EvGet ?u) (emit (EvStat ?p) demo_world)"]
  have run: "mirrors_loop ?env True ''/feeds'' [demo_mirror] demo_world
               = fold (\<lambda>(m, r). process_release ?env True ''/feeds'' m r)
                   (release_pairs [demo_mirror]) demo_world"
    using th by blast
  have paths: "stats (trace (mirrors_loop ?env True ''/feeds'' [demo_mirror] demo_world))
                 = stats (trace demo_world)
                   @ concat (map (\<lambda>m. map (\<lambda>release. filepath_Join ?env ''/feeds''
                                                 (Prefix m @ release @ ''.rss''))
                                        (Releases m)) [demo_mirror])"
    using th by blast
  have logged: "process_release ?env True ''/feeds'' demo_mirror ''slackware-14.2'' demo_world
                  = emit (EvLogError ''slackware-14.2'' (Foreign ''connection refused''))
                      (emit (EvGet ?u) (emit (EvStat ?p) demo_world))"
    using th b by blast
  have one: "fold (\<lambda>(m, r). process_release ?env True ''/feeds'' m r)
                   (release_pairs [demo_mirror]) demo_world
               = process_release ?env True ''/feeds'' demo_mirror ''slackware-current''
                   (process_release ?env True ''/feeds'' demo_mirror ''slackware-14.2'' demo_world)"
    by (simp add: release_pairs_def demo_mirror_def)
  have two: "stats (trace demo_world)
                   @ concat (map (\<lambda>m. map (\<lambda>release. filepath_Join ?env ''/feeds''
                                                 (Prefix m @ release @ ''.rss''))
                                        (Releases m)) [demo_mirror])
               = [''/feeds/alpha-slackware-14.2.rss'', ''/feeds/alpha-slackware-current.rss'']"
    by (simp add: demo_world_def demo_env_def demo_mirror_def)
  show ?thesis
    by (intro conjI) (rule trans [OF run one] trans [OF paths two] logged)+
qed

text \<open>
  C10. When the body of the full response does not parse, \<open>ChangeLog\<close> returns no entries,
  the modification time it read from the header, and the error. On every other error
  \<open>ChangeLog\<close> returns \<open>time.Unix(0, 0)\<close>. When \<open>NewerChangeLog\<close> returns an error it is
  either the result of the \<open>ChangeLog\<close> call it made (the remote was newer) or it carries
  \<open>time.Unix(0, 0)\<close> and no entries.
\<close>

theorem error_path_mtime:
  assumes "u = URL r @ ''/ChangeLog.txt''"
  shows "(http_Get env (tick w) u = Inr resp \<and> StatusCode resp = StatusOK
            \<and> http_ParseTime env (Header_Get (Header resp) ''last-modified'') = Inr t
            \<and> changelog_Parse env (Body resp) = Inl m \<longrightarrow>
          ChangeLog env r w = (([], t, Some (Foreign m)), emit (EvGet u) w))
       \<and> (fetched_err (ChangeLog env r w) \<noteq> None
            \<and> \<not> (\<exists>resp t m. http_Get env (tick w) u = Inr resp \<and> StatusCode resp = StatusOK
                     \<and> http_ParseTime env (Header_Get (Header resp) ''last-modified'') = Inr t
                     \<and> changelog_Parse env (Body resp) = Inl m) \<longrightarrow>
          fetched_mtime (ChangeLog env r w) = Unix 0 0 \<and> fetched_entries (ChangeLog env r w) = [])
       \<and> (fetched_err (NewerChangeLog env r than w) \<noteq> None \<longrightarrow>
          (if \<exists>resp remote. http_Head env (tick w) u = Inr resp \<and> StatusCode resp = StatusOK
                 \<and> http_ParseTime env (Header_Get (Header resp) ''last-modified'') = Inr remote
                 \<and> After remote than
           then NewerChangeLog env r than w = ChangeLog env r (emit (EvHead u) w)
           else fetched_mtime (NewerChangeLog env r than w) = Unix 0 0
                \<and> fetched_entries (NewerChangeLog env r than w) = []))"
proof -
  have one: "ChangeLog env r w = (([], t, Some (Foreign m)), emit (EvGet u) w)"
    if "http_Get env (tick w) u = Inr resp" "StatusCode resp = StatusOK"
       "http_ParseTime env (Header_Get (Header resp) ''last-modified'') = Inr t"
       "changelog_Parse env (Body resp) = Inl m"
    using that assms by (simp add: ChangeLog_def get_eq)
  have two: "fetched_mtime (ChangeLog env r w) = Unix 0 0 \<and> fetched_entries (ChangeLog env r w) = []"
    if "fetched_err (ChangeLog env r w) \<noteq> None"
       "\<not> (\<exists>resp t m. http_Get env (tick w) u = Inr resp \<and> StatusCode resp = StatusOK
                     \<and> http_ParseTime env (Header_Get (Header resp) ''last-modified'') = Inr t
                     \<and> changelog_Parse env (Body resp) = Inl m)"
    using that assms
    by (auto simp: ChangeLog_def get_eq fetched_err_def fetched_mtime_def fetched_entries_def
        split: sum.splits if_splits)
  have three: "(if \<exists>resp remote. http_Head env (tick w) u = Inr resp \<and> StatusCode resp = StatusOK
                 \<and> http_ParseTime env (Header_Get (Header resp) ''last-modified'') = Inr remote
                 \<and> After remote than
           then NewerChangeLog env r than w = ChangeLog env r (emit (EvHead u) w)
           else fetched_mtime (NewerChangeLog env r than w) = Unix 0 0
                \<and> fetched_entries (NewerChangeLog env r than w) = [])"
    if "fetched_err (NewerChangeLog env r than w) \<noteq> None"
    using that assms
    by (auto simp: NewerChangeLog_def head_eq fetched_err_def fetched_mtime_def fetched_entries_def
        split: sum.splits if_splits)
  show ?thesis
    using one two three by blast
qed

theorem error_path_mtime_witness:
  "ChangeLog (demo_env\<lparr>changelog_Parse := \<lambda>rd. Inl ''unexpected end of header''\<rparr>)
      demo_repo demo_world
     = (([], Unix 200 0, Some (Foreign ''unexpected end of header'')),
        emit (EvGet ''http://mirror.example/ChangeLog.txt'') demo_world)
   \<and> fetched_mtime (ChangeLog (demo_env\<lparr>http_Get := \<lambda>t url. Inl ''connection refused''\<rparr>)
        demo_repo demo_world) = Unix 0 0
   \<and> fetched_mtime (NewerChangeLog demo_env demo_repo (Unix 200 0) demo_world) = Unix 0 0"
proof -
  let ?u = "''http://mirror.example/ChangeLog.txt''"
  let ?env1 = "demo_env\<lparr>changelog_Parse := \<lambda>rd. Inl ''unexpected end of header''\<rparr>"
  let ?env2 = "demo_env\<lparr>http_Get := \<lambda>t url. Inl ''connection refused''\<rparr>"
  let ?resp = "demo_response 200 demo_stamp ?u"
  have u: "?u = URL demo_repo @ ''/ChangeLog.txt''"
    by (simp add: demo_repo_def)
  have h1: "http_Get ?env1 (tick demo_world) ?u = Inr ?resp \<and> StatusCode ?resp = StatusOK
            \<and> http_ParseTime ?env1 (Header_Get (Header ?resp) ''last-modified'') = Inr (Unix 200 0)
            \<and> changelog_Parse ?env1 (Body ?resp) = Inl ''unexpected end of header''"
    by (simp add: demo_env_def demo_response_def demo_stamp_def StatusOK_def http_ParseTime_def
        Header_Get_def)
  have h2: "fetched_err (ChangeLog ?env2 demo_repo demo_world) \<noteq> None
            \<and> \<not> (\<exists>resp t m. http_Get ?env2 (tick demo_world) ?u = Inr resp \<and> StatusCode resp = StatusOK
                     \<and> http_ParseTime ?env2 (Header_Get (Header resp) ''last-modified'') = Inr t
                     \<and> changelog_Parse ?env2 (Body resp) = Inl m)"
    by (simp add: ChangeLog_def get_eq fetched_err_def)
  have h3: "fetched_err (NewerChangeLog demo_env demo_repo (Unix 200 0) demo_world) \<noteq> None"
    by (simp add: NewerChangeLog_def head_eq demo_env_def demo_repo_def demo_response_def
        demo_stamp_def StatusOK_def http_ParseTime_def Header_Get_def After_def fetched_err_def)
  have h4: "\<not> (\<exists>resp remote. http_Head demo_env (tick demo_world) ?u = Inr resp
                 \<and> StatusCode resp = StatusOK
                 \<and> http_ParseTime demo_env (Header_Get (Header resp) ''last-modified'') = Inr remote
                 \<and> After remote (Unix 200 0))"
    by (simp add: demo_env_def demo_response_def demo_stamp_def StatusOK_def http_ParseTime_def
        Header_Get_def After_def)
  show ?thesis
    using error_path_mtime [OF u, where env = ?env1 and w = demo_world and resp = ?resp
        and t = "Unix 200 0" and m = "''unexpected end of header''"] h1
      error_path_mtime [OF u, where env = ?env2 and w = demo_world] h2
      error_path_mtime [OF u, where env = demo_env and w = demo_world and than = "Unix 200 0"] h3 h4
    by simp
qed

end
